theory Spec2Isabelle
  imports Complex_Main "HOL-Library.Sublist"
begin

section \<open>JavaScript values and objects\<close>

text \<open>
  The session keeper keeps its settings in a plain JavaScript object whose fields are
  read dynamically (\<open>this.config.riskLevel\<close>, \<open>this.config.enableBackgroundKeepAlive\<close>, ...).
  A field can therefore hold any JSON value, or be absent. Values are modelled by
  \<open>jsval\<close>: the values of data, as \<open>JSON.parse\<close> or a literal of data makes them. An
  object or array of data is a plain one: its fields hold data, never functions, and its
  prototype is the built-in one. The settings object is the map of its own enumerable
  properties. Numbers stored in the settings are only compared and passed on, so \<open>real\<close>
  stands for the finite numbers.
\<close>

datatype jsval =
    JUndefined
  | JNull
  | JBool bool
  | JNum real
  | JStr string
  | JArr "jsval list"
  | JObj "(string \<times> jsval) list"

type_synonym jsobj = "string \<rightharpoonup> jsval"

text \<open>\<open>if (v)\<close>: JavaScript truthiness.\<close>

fun truthy :: "jsval \<Rightarrow> bool" where
  "truthy JUndefined = False"
| "truthy JNull = False"
| "truthy (JBool b) = b"
| "truthy (JNum n) = (n \<noteq> 0)"
| "truthy (JStr s) = (s \<noteq> [])"
| "truthy (JArr xs) = True"
| "truthy (JObj kvs) = True"

text \<open>\<open>obj.key\<close>: reading an absent property gives \<open>undefined\<close>.\<close>

definition getField :: "jsobj \<Rightarrow> string \<Rightarrow> jsval" where
  "getField obj k = (case obj k of None \<Rightarrow> JUndefined | Some v \<Rightarrow> v)"

text \<open>
  Decimal digits of an integer, as \<open>String(n)\<close> prints an array index or a time value
  (integers below \<open>10^21\<close> are printed in full).
\<close>

fun digits :: "nat \<Rightarrow> string" where
  "digits n =
     (if n < 10 then [''0123456789'' ! n]
      else digits (n div 10) @ [''0123456789'' ! (n mod 10)])"

definition showInt :: "int \<Rightarrow> string" where
  "showInt i = (if i < 0 then CHR ''-'' # digits (nat (- i)) else digits (nat i))"

text \<open>
  The own enumerable properties that an object spread \<open>{...v}\<close> or \<open>Object.assign\<close>
  copies from a source value, in order: the fields of an object, the indexed elements of
  an array, the indexed characters of a string, and nothing for \<open>null\<close>, \<open>undefined\<close>,
  booleans and numbers.
\<close>

fun ownProps :: "jsval \<Rightarrow> (string \<times> jsval) list" where
  "ownProps (JObj kvs) = kvs"
| "ownProps (JArr xs) = zip (map digits [0..<length xs]) xs"
| "ownProps (JStr cs) = zip (map digits [0..<length cs]) (map (\<lambda>c. JStr [c]) cs)"
| "ownProps v = []"

text \<open>\<open>{...target, ...source}\<close>: later properties overwrite earlier ones of the same name.\<close>

definition assign :: "jsobj \<Rightarrow> (string \<times> jsval) list \<Rightarrow> jsobj" where
  "assign target kvs = fold (\<lambda>(k, v) m. m(k \<mapsto> v)) kvs target"

text \<open>
  \<open>Object.assign({}, a, b)\<close> stores every field with an ordinary assignment. For every
  name but one that creates the field on the fresh target, as the spread does. The
  assignment to the name \<open>__proto__\<close> runs the prototype setter of the target and creates
  no field. Objects are modelled by their own fields, without prototypes, so this case
  lies outside the model: \<open>objectAssign\<close> is \<open>None\<close> when a source has an own field of
  that name.
\<close>

definition objectAssign :: "jsobj \<Rightarrow> (string \<times> jsval) list \<Rightarrow> jsobj option" where
  "objectAssign a kvs =
     (if a ''__proto__'' \<noteq> None \<or> map_of kvs ''__proto__'' \<noteq> None then None
      else Some (assign a kvs))"

text \<open>
  The conversion of a value to a number (\<open>interval / 1000\<close>, the delay of \<open>setInterval\<close>)
  completes for every primitive value. An object is first converted to a primitive by its
  \<open>valueOf\<close> and \<open>toString\<close> methods: a plain object inherits a \<open>toString\<close> that answers,
  unless an own field \<open>toString\<close>, which in data is never a function, hides it; then the
  conversion raises a \<open>TypeError\<close>. An array joins the strings of its elements, and raises
  when one of them does.
\<close>

fun convertsToNumber :: "jsval \<Rightarrow> bool" where
  "convertsToNumber (JObj kvs) = (map_of kvs ''toString'' = None)"
| "convertsToNumber (JArr xs) = (\<forall>x \<in> set xs. convertsToNumber x)"
| "convertsToNumber v = True"

text \<open>\<open>haystack.includes(needle)\<close>.\<close>

fun str_includes :: "string \<Rightarrow> string \<Rightarrow> bool" where
  "str_includes [] needle = (needle = [])"
| "str_includes (c # cs) needle = (prefix needle (c # cs) \<or> str_includes cs needle)"

section \<open>The host page\<close>

text \<open>
  Everything the keeper reads from the browser during one callback is collected in the
  record \<open>host\<close>: the clock (\<open>Date.now()\<close>, a time value in milliseconds, an integer of
  at most 16 digits), \<open>document.hidden\<close>,
  \<open>window.location.hostname\<close>, the scroll position and window size, the stream of
  \<open>Math.random()\<close> results, and which browser calls raise. \<open>JSON.parse\<close> and
  \<open>JSON.stringify\<close> belong to the platform and are parameters of the model;
  \<open>JSON.parse\<close> raises on text that is not JSON. The arithmetic on numbers belongs to
  the platform as well: \<open>double op a b\<close> is the result of \<open>a op b\<close> as double-precision
  arithmetic rounds it, which need not be the exact result.
\<close>

datatype binop = Times | Divide | Plus | Minus

datatype exn = StorageError | SyntaxError | TypeError | DOMError

datatype hostop =
    LocalStorageGetItem
  | LocalStorageSetItem
  | LocalStorageRemoveItem
  | WindowScrollBy
  | WindowScrollToOptions
  | WindowScrollTo
  | NewMouseEvent
  | NewEvent
  | DocumentDispatchEvent
  | WindowDispatchEvent

record host =
  now :: int
  hidden :: bool
  hostname :: string
  readyStateLoading :: bool
  scrollY :: real
  innerWidth :: real
  innerHeight :: real
  random :: "nat \<Rightarrow> real"
  double :: "binop \<Rightarrow> real \<Rightarrow> real \<Rightarrow> real"
  throws :: "hostop \<Rightarrow> exn option"
  JSON_parse :: "string \<Rightarrow> exn + jsval"
  JSON_stringify :: "jsobj \<Rightarrow> string"

section \<open>The keeper object and the page state it changes\<close>

text \<open>
  Callbacks handed to \<open>setTimeout\<close> and \<open>setInterval\<close>, and listeners handed to
  \<open>addEventListener\<close>, are closures of the source; each constructor names one of them.
  \<open>CbRestoreScroll y\<close> is the closure that scrolls back to the captured
  \<open>originalScrollY = y\<close>.
\<close>

datatype callback =
    CbInit
  | CbTick
  | CbSimulateNaturalActivity
  | CbRestoreScroll real
  | CbRemoveHeartbeat

datatype handler = HStart | HVisibilityChange | HUserActivity

datatype effect =
    ScrollBy real real
  | ScrollToOptions real
  | ScrollTo real real
  | MouseMoveEvent real real
  | FocusEvent
  | ConsoleWarn exn
  | Uncaught exn

text \<open>
  The first four fields are the fields of \<open>WeChatSessionKeeper\<close>. The others are the
  parts of the page that its methods change: \<open>localStorage\<close>, the browser's timers
  (a repeating timer is its identifier with its delay, a one-shot timer its delay with
  its callback), the listeners registered on \<open>document\<close>, whether \<open>window.WebSocket\<close>
  has been wrapped, how many \<open>Math.random()\<close> results have been consumed, and the list
  of scroll calls, synthetic events and console warnings issued so far.
  The status indicator, the settings dialog and debug logging only draw and print; they
  are left out.
\<close>

record state =
  isActive :: bool
  lastActivity :: int
  activityTimer :: "nat option"
  config :: jsobj
  localStorage :: "string \<rightharpoonup> string"
  timerCount :: nat
  intervals :: "(nat \<times> jsval) list"
  timeouts :: "(nat \<times> callback) list"
  listeners :: "(string \<times> handler) list"
  webSocketPatched :: bool
  randomUsed :: nat
  effects :: "effect list"

text \<open>
  A statement runs on a state and either completes normally or throws; what it changed
  before throwing stays changed.
\<close>

type_synonym outcome = "exn option \<times> state"
type_synonym stmt = "state \<Rightarrow> outcome"

definition normal :: stmt where
  "normal s = (None, s)"

definition seq :: "stmt \<Rightarrow> stmt \<Rightarrow> stmt" where
  "seq f g s = (case f s of (None, s') \<Rightarrow> g s' | (Some e, s') \<Rightarrow> (Some e, s'))"

definition tryCatch :: "stmt \<Rightarrow> (exn \<Rightarrow> stmt) \<Rightarrow> stmt" where
  "tryCatch body handler s =
     (case body s of (None, s') \<Rightarrow> (None, s') | (Some e, s') \<Rightarrow> handler e s')"

text \<open>A browser call that either raises or has its effect.\<close>

definition hostCall :: "host \<Rightarrow> hostop \<Rightarrow> (state \<Rightarrow> state) \<Rightarrow> stmt" where
  "hostCall h op f s = (case throws h op of Some e \<Rightarrow> (Some e, s) | None \<Rightarrow> (None, f s))"

definition emit :: "effect \<Rightarrow> state \<Rightarrow> state" where
  "emit e s = s\<lparr>effects := effects s @ [e]\<rparr>"

text \<open>
  An exception that leaves a listener or a timer callback goes no further: the browser
  reports it as uncaught and carries on.
\<close>

definition reportUncaught :: "outcome \<Rightarrow> state" where
  "reportUncaught r = (case r of (None, s) \<Rightarrow> s | (Some e, s) \<Rightarrow> emit (Uncaught e) s)"

definition setTimeout :: "callback \<Rightarrow> nat \<Rightarrow> state \<Rightarrow> state" where
  "setTimeout cb delay s = s\<lparr>timeouts := timeouts s @ [(delay, cb)]\<rparr>"

section \<open>Settings\<close>

definition CONFIG :: jsobj where
  "CONFIG = [''riskLevel'' \<mapsto> JStr ''low'',
             ''enableWebSocketMonitor'' \<mapsto> JBool True,
             ''enableBackgroundKeepAlive'' \<mapsto> JBool True,
             ''activityInterval'' \<mapsto> JNum 300000,
             ''debugMode'' \<mapsto> JBool False]"

definition configKey :: string where
  "configKey = ''wechat-session-keeper-config''"

definition heartbeatKey :: string where
  "heartbeatKey = ''wechat-keepalive-heartbeat''"

definition isFileHelper :: "host \<Rightarrow> bool" where
  "isFileHelper h = str_includes (hostname h) ''filehelper.weixin.qq.com''"

text \<open>\<open>getActivityInterval\<close> and \<open>getMinInactiveTime\<close>: the \<open>switch\<close> on \<open>riskLevel\<close>.\<close>

definition getActivityInterval :: "state \<Rightarrow> jsval" where
  "getActivityInterval s =
     (let r = getField (config s) ''riskLevel'' in
      if r = JStr ''low'' then JNum 300000
      else if r = JStr ''medium'' then JNum 120000
      else if r = JStr ''high'' then JNum 60000
      else getField (config s) ''activityInterval'')"

definition getMinInactiveTime :: "state \<Rightarrow> int" where
  "getMinInactiveTime s =
     (let r = getField (config s) ''riskLevel'' in
      if r = JStr ''low'' then 240000
      else if r = JStr ''medium'' then 90000
      else if r = JStr ''high'' then 45000
      else 180000)"

text \<open>
  \<open>loadConfig\<close>. The body of the \<open>try\<close> block reads the stored text, which
  \<open>localStorage.getItem\<close> may refuse, and then runs two statements: \<open>mergeStored\<close> is
  \<open>if (stored) { this.config = { ...this.config, ...JSON.parse(stored) } }\<close>, where
  \<open>if (stored)\<close> holds for a non-empty string, and \<open>fileHelperDefaults\<close> is the block for the
  file-transfer helper page. The \<open>catch\<close> block warns on the console.
\<close>

definition getItem :: "host \<Rightarrow> string \<Rightarrow> state \<Rightarrow> exn + string option" where
  "getItem h k s =
     (case throws h LocalStorageGetItem of Some e \<Rightarrow> Inl e | None \<Rightarrow> Inr (localStorage s k))"

definition isStored :: "string option \<Rightarrow> bool" where
  "isStored stored = (case stored of None \<Rightarrow> False | Some text \<Rightarrow> text \<noteq> [])"

definition mergeStored :: "host \<Rightarrow> string option \<Rightarrow> stmt" where
  "mergeStored h stored s =
     (case stored of
        None \<Rightarrow> (None, s)
      | Some text \<Rightarrow>
          if text = [] then (None, s)
          else (case JSON_parse h text of
                  Inl e \<Rightarrow> (Some e, s)
                | Inr v \<Rightarrow> (None, s\<lparr>config := assign (config s) (ownProps v)\<rparr>)))"

definition fileHelperDefaults :: "host \<Rightarrow> string option \<Rightarrow> stmt" where
  "fileHelperDefaults h stored s =
     (if isFileHelper h then
        (if \<not> isStored stored then
           (None, s\<lparr>config := (config s)(''riskLevel'' \<mapsto> JStr ''low'',
                                         ''enableBackgroundKeepAlive'' \<mapsto> JBool True,
                                         ''activityInterval'' \<mapsto> JNum 300000)\<rparr>)
         else (None, s))
      else (None, s))"

definition loadConfig_try :: "host \<Rightarrow> stmt" where
  "loadConfig_try h s =
     (case getItem h configKey s of
        Inl e \<Rightarrow> (Some e, s)
      | Inr stored \<Rightarrow> seq (mergeStored h stored) (fileHelperDefaults h stored) s)"

definition loadConfig :: "host \<Rightarrow> stmt" where
  "loadConfig h = tryCatch (loadConfig_try h) (\<lambda>e s. (None, emit (ConsoleWarn e) s))"

text \<open>\<open>saveConfig\<close>.\<close>

definition setItem :: "host \<Rightarrow> string \<Rightarrow> string \<Rightarrow> stmt" where
  "setItem h k v = hostCall h LocalStorageSetItem (\<lambda>s. s\<lparr>localStorage := (localStorage s)(k \<mapsto> v)\<rparr>)"

definition saveConfig :: "host \<Rightarrow> stmt" where
  "saveConfig h =
     tryCatch (\<lambda>s. setItem h configKey (JSON_stringify h (config s)) s)
              (\<lambda>e s. (None, emit (ConsoleWarn e) s))"

text \<open>
  The constructor: fresh fields, \<open>this.config = { ...CONFIG }\<close>, \<open>loadConfig()\<close>, and
  \<open>init()\<close>, which defers \<open>start()\<close> by one second.
\<close>

definition init :: stmt where
  "init s = (None, setTimeout CbInit 1000 s)"

definition constructor :: "host \<Rightarrow> stmt" where
  "constructor h s =
     seq (loadConfig h) init
       (s\<lparr>isActive := False, lastActivity := now h, activityTimer := None, config := CONFIG\<rparr>)"

section \<open>Watchers and the recurring timer\<close>

definition onPageActive :: "host \<Rightarrow> state \<Rightarrow> state" where
  "onPageActive h s =
     setTimeout CbSimulateNaturalActivity 1000 (s\<lparr>isActive := True, lastActivity := now h\<rparr>)"

definition onUserActivity :: "host \<Rightarrow> state \<Rightarrow> state" where
  "onUserActivity h s = s\<lparr>lastActivity := now h, isActive := True\<rparr>"

definition setupPageVisibilityMonitor :: "state \<Rightarrow> state" where
  "setupPageVisibilityMonitor s =
     s\<lparr>listeners := listeners s @ [(''visibilitychange'', HVisibilityChange)]\<rparr>"

definition setupUserActivityMonitor :: "state \<Rightarrow> state" where
  "setupUserActivityMonitor s =
     (let events = [''mousedown'', ''mousemove'', ''keypress'', ''scroll'', ''touchstart'']
      in s\<lparr>listeners := listeners s @ map (\<lambda>event. (event, HUserActivity)) events\<rparr>)"

text \<open>
  \<open>setInterval\<close> converts its delay to a number, which may raise, and then hands out a
  fresh positive identifier; \<open>clearInterval\<close> removes the timer with that identifier. The
  only repeating callback of the keeper is the tick.
\<close>

definition setInterval :: "jsval \<Rightarrow> state \<Rightarrow> exn + nat \<times> state" where
  "setInterval delay s =
     (if convertsToNumber delay then
        (let t = Suc (timerCount s)
         in Inr (t, s\<lparr>timerCount := t, intervals := intervals s @ [(t, delay)]\<rparr>))
      else Inl TypeError)"

definition clearInterval :: "nat \<Rightarrow> state \<Rightarrow> state" where
  "clearInterval t s = s\<lparr>intervals := filter (\<lambda>(i, delay). i \<noteq> t) (intervals s)\<rparr>"

text \<open>
  \<open>setupPeriodicActivity\<close> assigns the identifier to \<open>this.activityTimer\<close> and then
  evaluates the argument of its log line, \<open>interval / 1000\<close>, whether or not debug logging
  is on.
\<close>

definition setupPeriodicActivity :: stmt where
  "setupPeriodicActivity s =
     (let interval = getActivityInterval s in
      case setInterval interval s of
        Inl e \<Rightarrow> (Some e, s)
      | Inr (t, s') \<Rightarrow>
          (let s'' = s'\<lparr>activityTimer := Some t\<rparr>
           in if convertsToNumber interval then (None, s'') else (Some TypeError, s'')))"

definition setupWebSocketMonitor :: "state \<Rightarrow> state" where
  "setupWebSocketMonitor s = s\<lparr>webSocketPatched := True\<rparr>"

definition start :: stmt where
  "start s =
     (let s1 = setupPageVisibilityMonitor s;
          s2 = setupUserActivityMonitor s1
      in seq setupPeriodicActivity
           (\<lambda>s3. (None, if truthy (getField (config s3) ''enableWebSocketMonitor'')
                          then setupWebSocketMonitor s3 else s3))
           s2)"

text \<open>\<open>if (this.activityTimer)\<close>: the field holds \<open>null\<close> or a timer identifier.\<close>

definition timerSet :: "nat option \<Rightarrow> bool" where
  "timerSet t = (case t of None \<Rightarrow> False | Some i \<Rightarrow> i \<noteq> 0)"

definition stop :: "state \<Rightarrow> state" where
  "stop s =
     (case activityTimer s of
        None \<Rightarrow> s
      | Some t \<Rightarrow> if t \<noteq> 0 then (clearInterval t s)\<lparr>activityTimer := None\<rparr> else s)"

text \<open>The listeners registered on \<open>document\<close>, and the delivery of one event to them.\<close>

definition runHandler :: "host \<Rightarrow> handler \<Rightarrow> stmt" where
  "runHandler h listener s =
     (case listener of
        HStart \<Rightarrow> start s
      | HVisibilityChange \<Rightarrow> (None, if \<not> hidden h then onPageActive h s else s)
      | HUserActivity \<Rightarrow> (None, onUserActivity h s))"

definition handlersFor :: "string \<Rightarrow> state \<Rightarrow> handler list" where
  "handlersFor event s = map snd (filter (\<lambda>(name, listener). name = event) (listeners s))"

definition fireEvent :: "host \<Rightarrow> string \<Rightarrow> state \<Rightarrow> state" where
  "fireEvent h event s =
     fold (\<lambda>listener s'. reportUncaught (runHandler h listener s')) (handlersFor event s) s"

section \<open>Synthetic actions\<close>

definition simulateMinimalScroll :: "host \<Rightarrow> stmt" where
  "simulateMinimalScroll h =
     (let originalScrollY = scrollY h in
      seq (hostCall h WindowScrollBy (emit (ScrollBy 0 (1 / 10))))
          (\<lambda>s. (None, setTimeout (CbRestoreScroll originalScrollY) 50 s)))"

definition simulateBackgroundActivity :: "host \<Rightarrow> stmt" where
  "simulateBackgroundActivity h =
     tryCatch
       (let timestamp = showInt (now h) in
        seq (setItem h heartbeatKey timestamp)
            (\<lambda>s. (None, setTimeout CbRemoveHeartbeat 100 s)))
       (\<lambda>e. simulateMinimalScroll h)"

definition simulateScroll :: "host \<Rightarrow> stmt" where
  "simulateScroll h =
     (if isFileHelper h then simulateBackgroundActivity h
      else (let originalScrollY = scrollY h in
            seq (hostCall h WindowScrollBy (emit (ScrollBy 0 1)))
                (\<lambda>s. (None, setTimeout (CbRestoreScroll originalScrollY) 100 s))))"

text \<open>
  \<open>simulateMouseMove\<close> draws two random numbers for the coordinates
  (\<open>extent / 2 + Math.random() * 2 - 1\<close>), builds the event and dispatches it on \<open>document\<close>,
  where the keeper's own \<open>mousemove\<close> listener hears it.
\<close>

definition pointerCoordinate :: "host \<Rightarrow> real \<Rightarrow> real \<Rightarrow> real" where
  "pointerCoordinate h extent r =
     double h Minus (double h Plus (double h Divide extent 2) (double h Times r 2)) 1"

definition simulateMouseMove :: "host \<Rightarrow> stmt" where
  "simulateMouseMove h s =
     (let clientX = pointerCoordinate h (innerWidth h) (random h (randomUsed s));
          clientY = pointerCoordinate h (innerHeight h) (random h (Suc (randomUsed s)));
          s1 = s\<lparr>randomUsed := randomUsed s + 2\<rparr>
      in seq (hostCall h NewMouseEvent (\<lambda>s'. s'))
             (hostCall h DocumentDispatchEvent
                (\<lambda>s'. fireEvent h ''mousemove'' (emit (MouseMoveEvent clientX clientY) s')))
             s1)"

definition simulateFocus :: "host \<Rightarrow> stmt" where
  "simulateFocus h =
     seq (hostCall h NewEvent (\<lambda>s'. s')) (hostCall h WindowDispatchEvent (emit FocusEvent))"

text \<open>
  \<open>activities[Math.floor(Math.random() * activities.length)]()\<close> over the three
  activities: the index is the floor of the double product of the draw and 3; calling an
  element outside the array would be a \<open>TypeError\<close>.
\<close>

definition randomIndex :: "host \<Rightarrow> state \<Rightarrow> int" where
  "randomIndex h s = \<lfloor>double h Times (random h (randomUsed s)) 3\<rfloor>"

definition randomActivity :: "host \<Rightarrow> stmt" where
  "randomActivity h s =
     (let i = randomIndex h s;
          s1 = s\<lparr>randomUsed := Suc (randomUsed s)\<rparr>
      in if i = 0 then simulateScroll h s1
         else if i = 1 then simulateMouseMove h s1
         else if i = 2 then simulateFocus h s1
         else (Some TypeError, s1))"

definition simulateNaturalActivity :: "host \<Rightarrow> stmt" where
  "simulateNaturalActivity h s =
     (let isPageVisible = \<not> hidden h in
      seq (if \<not> isPageVisible \<and> truthy (getField (config s) ''enableBackgroundKeepAlive'')
           then simulateBackgroundActivity h
           else if getField (config s) ''riskLevel'' = JStr ''low'' then simulateScroll h
           else randomActivity h)
          (\<lambda>s'. (None, s'\<lparr>lastActivity := now h\<rparr>))
          s)"

section \<open>The idle policy\<close>

definition shouldSimulateActivity :: "host \<Rightarrow> state \<Rightarrow> bool" where
  "shouldSimulateActivity h s =
     (let timeSinceLastActivity = now h - lastActivity s;
          hasBeenInactiveEnough = (timeSinceLastActivity > getMinInactiveTime s)
      in if truthy (getField (config s) ''enableBackgroundKeepAlive'') then hasBeenInactiveEnough
         else (let isPageVisible = \<not> hidden h in isPageVisible \<and> hasBeenInactiveEnough))"

text \<open>The Firefox build has no background mode: its version never reads that setting.\<close>

definition firefox_shouldSimulateActivity :: "host \<Rightarrow> state \<Rightarrow> bool" where
  "firefox_shouldSimulateActivity h s =
     (let timeSinceLastActivity = now h - lastActivity s;
          isPageVisible = \<not> hidden h;
          hasBeenInactiveEnough = (timeSinceLastActivity > getMinInactiveTime s)
      in isPageVisible \<and> hasBeenInactiveEnough)"

text \<open>
  The reference definition of the specification: with background mode on, act iff the
  idle time exceeds the threshold; with background mode off, act iff the page is visible
  and the idle time exceeds the threshold.
\<close>

definition shouldAct_spec :: "bool \<Rightarrow> bool \<Rightarrow> int \<Rightarrow> int \<Rightarrow> bool" where
  "shouldAct_spec backgroundModeEnabled pageVisible idleFor minIdleBeforeAction =
     (if backgroundModeEnabled then idleFor > minIdleBeforeAction
      else pageVisible \<and> idleFor > minIdleBeforeAction)"

section \<open>Callbacks run by the browser\<close>

text \<open>The function handed to \<open>setInterval\<close>.\<close>

definition tick :: "host \<Rightarrow> stmt" where
  "tick h s = (if shouldSimulateActivity h s then simulateNaturalActivity h s else (None, s))"

definition restoreScroll :: "host \<Rightarrow> real \<Rightarrow> stmt" where
  "restoreScroll h originalScrollY =
     tryCatch (hostCall h WindowScrollToOptions (emit (ScrollToOptions originalScrollY)))
              (\<lambda>e. hostCall h WindowScrollTo (emit (ScrollTo 0 originalScrollY)))"

definition removeHeartbeat :: "host \<Rightarrow> stmt" where
  "removeHeartbeat h =
     hostCall h LocalStorageRemoveItem (\<lambda>s. s\<lparr>localStorage := (localStorage s)(heartbeatKey := None)\<rparr>)"

definition runCallback :: "host \<Rightarrow> callback \<Rightarrow> stmt" where
  "runCallback h cb s =
     (case cb of
        CbInit \<Rightarrow>
          if readyStateLoading h
          then (None, s\<lparr>listeners := listeners s @ [(''DOMContentLoaded'', HStart)]\<rparr>)
          else start s
      | CbTick \<Rightarrow> tick h s
      | CbSimulateNaturalActivity \<Rightarrow> simulateNaturalActivity h s
      | CbRestoreScroll y \<Rightarrow> restoreScroll h y s
      | CbRemoveHeartbeat \<Rightarrow> removeHeartbeat h s)"

text \<open>
  The browser's side of a timer. An exception that leaves a callback is reported as
  uncaught; the browser does not cancel a repeating timer because its callback threw.
  A one-shot timer is removed when it fires.
\<close>

definition fireInterval :: "host \<Rightarrow> nat \<Rightarrow> state \<Rightarrow> state" where
  "fireInterval h t s =
     (if t \<in> set (map fst (intervals s)) then reportUncaught (tick h s) else s)"

definition fireTimeout :: "host \<Rightarrow> nat \<Rightarrow> state \<Rightarrow> state" where
  "fireTimeout h i s =
     (if i < length (timeouts s)
      then reportUncaught
             (runCallback h (snd (timeouts s ! i))
                (s\<lparr>timeouts := take i (timeouts s) @ drop (Suc i) (timeouts s)\<rparr>))
      else s)"

section \<open>Changing the settings\<close>

text \<open>
  \<open>updateConfig\<close>: merge with \<open>Object.assign\<close>, save, and restart the timer when one is
  set. An exception of the restart leaves \<open>updateConfig\<close>.
\<close>

definition restartTimer :: stmt where
  "restartTimer s =
     (case activityTimer s of
        None \<Rightarrow> (None, s)
      | Some t \<Rightarrow> if t \<noteq> 0 then setupPeriodicActivity (clearInterval t s) else (None, s))"

definition updateConfig :: "host \<Rightarrow> jsval \<Rightarrow> state \<Rightarrow> outcome option" where
  "updateConfig h newConfig s =
     (case objectAssign (config s) (ownProps newConfig) of
        None \<Rightarrow> None
      | Some merged \<Rightarrow> Some (seq (saveConfig h) restartTimer (s\<lparr>config := merged\<rparr>)))"

section \<open>Notions of the specification\<close>

text \<open>A duration is defined and non-negative.\<close>

definition nonNegativeDuration :: "jsval \<Rightarrow> bool" where
  "nonNegativeDuration v = (case v of JNum n \<Rightarrow> 0 \<le> n | _ \<Rightarrow> False)"

text \<open>
  The persisted record is missing when the storage cannot be read or holds nothing under
  the key, and malformed when the stored text is not JSON.
\<close>

definition recordMissing :: "host \<Rightarrow> state \<Rightarrow> bool" where
  "recordMissing h s =
     (case getItem h configKey s of Inl e \<Rightarrow> True | Inr stored \<Rightarrow> \<not> isStored stored)"

definition recordMalformed :: "host \<Rightarrow> state \<Rightarrow> bool" where
  "recordMalformed h s =
     (case getItem h configKey s of
        Inl e \<Rightarrow> False
      | Inr None \<Rightarrow> False
      | Inr (Some text) \<Rightarrow> (case JSON_parse h text of Inl e \<Rightarrow> True | Inr v \<Rightarrow> False))"

text \<open>A valid settings record: every documented field is present and well-typed.\<close>

definition validSettings :: "jsobj \<Rightarrow> bool" where
  "validSettings c =
     ((case c ''riskLevel'' of
         Some (JStr r) \<Rightarrow> r = ''low'' \<or> r = ''medium'' \<or> r = ''high''
       | _ \<Rightarrow> False) \<and>
      (case c ''enableBackgroundKeepAlive'' of Some (JBool b) \<Rightarrow> True | _ \<Rightarrow> False) \<and>
      (case c ''enableWebSocketMonitor'' of Some (JBool b) \<Rightarrow> True | _ \<Rightarrow> False) \<and>
      (case c ''debugMode'' of Some (JBool b) \<Rightarrow> True | _ \<Rightarrow> False) \<and>
      (case c ''activityInterval'' of Some (JNum n) \<Rightarrow> 0 \<le> n | _ \<Rightarrow> False))"

text \<open>
  The platform's \<open>JSON.parse\<close> reads back what its \<open>JSON.stringify\<close> wrote for this
  object: the text is a non-empty string and parses to a value with the same fields.
\<close>

definition jsonReadsBack :: "host \<Rightarrow> host \<Rightarrow> jsobj \<Rightarrow> bool" where
  "jsonReadsBack writer reader obj =
     (JSON_stringify writer obj \<noteq> [] \<and>
      (case JSON_parse reader (JSON_stringify writer obj) of
         Inl e \<Rightarrow> False
       | Inr v \<Rightarrow> assign Map.empty (ownProps v) = obj))"

text \<open>
  The watchers of a running keeper: one visibility watcher, and one real-input watcher for
  each of pointer press, pointer move, key press, scroll and touch start.
\<close>

definition inputEvents :: "string list" where
  "inputEvents = [''mousedown'', ''mousemove'', ''keypress'', ''scroll'', ''touchstart'']"

definition watching :: "state \<Rightarrow> bool" where
  "watching s =
     (handlersFor ''visibilitychange'' s = [HVisibilityChange] \<and>
      (\<forall>event \<in> set inputEvents. handlersFor event s = [HUserActivity]))"

text \<open>
  The synthetic actions, each with what it does to the page when no browser call raises:
  the storage pulse writes the heartbeat and schedules its removal; a scroll perturbs the
  position and schedules the restore; a dispatch issues the synthetic event (a synthetic
  pointer move is heard by the listeners on \<open>document\<close>).
\<close>

datatype action = StoragePulse | MinimalScroll | ScrollAndRestore | MouseMove | Focus

definition perform :: "host \<Rightarrow> action \<Rightarrow> state \<Rightarrow> state" where
  "perform h a s =
     (case a of
        StoragePulse \<Rightarrow>
          s\<lparr>localStorage := (localStorage s)(heartbeatKey \<mapsto> showInt (now h)),
            timeouts := timeouts s @ [(100, CbRemoveHeartbeat)]\<rparr>
      | MinimalScroll \<Rightarrow>
          s\<lparr>effects := effects s @ [ScrollBy 0 (1 / 10)],
            timeouts := timeouts s @ [(50, CbRestoreScroll (scrollY h))]\<rparr>
      | ScrollAndRestore \<Rightarrow>
          s\<lparr>effects := effects s @ [ScrollBy 0 1],
            timeouts := timeouts s @ [(100, CbRestoreScroll (scrollY h))]\<rparr>
      | MouseMove \<Rightarrow>
          fireEvent h ''mousemove''
            (s\<lparr>randomUsed := randomUsed s + 2,
               effects := effects s @
                 [MouseMoveEvent
                    (pointerCoordinate h (innerWidth h) (random h (randomUsed s)))
                    (pointerCoordinate h (innerHeight h) (random h (Suc (randomUsed s))))]\<rparr>)
      | Focus \<Rightarrow> s\<lparr>effects := effects s @ [FocusEvent]\<rparr>)"

text \<open>
  The lowest-footprint action: the storage pulse, or the minimal scroll when the storage
  write raises.
\<close>

definition lowestFootprint :: "host \<Rightarrow> action" where
  "lowestFootprint h =
     (case throws h LocalStorageSetItem of None \<Rightarrow> StoragePulse | Some e \<Rightarrow> MinimalScroll)"

text \<open>
  A uniform choice among three: a draw from the unit interval picks the first, second or
  third alternative according to the third of the interval it falls in.
\<close>

definition uniformChoice :: "real \<Rightarrow> 'a \<Rightarrow> 'a \<Rightarrow> 'a \<Rightarrow> 'a" where
  "uniformChoice r a b c = (if r < 1 / 3 then a else if r < 2 / 3 then b else c)"

text \<open>
  The selection policy in the words of the specification: hidden with background mode
  gives the lowest-footprint action, profile \<open>low\<close> gives scroll-and-restore, anything else
  a uniform choice among scroll-and-restore, pointer move and focus.
\<close>

definition selectAction_spec :: "host \<Rightarrow> state \<Rightarrow> action" where
  "selectAction_spec h s =
     (if hidden h \<and> truthy (getField (config s) ''enableBackgroundKeepAlive'')
      then lowestFootprint h
      else if getField (config s) ''riskLevel'' = JStr ''low'' then ScrollAndRestore
      else uniformChoice (random h (randomUsed s)) ScrollAndRestore MouseMove Focus)"

text \<open>
  The same policy with what the source adds: on the file-transfer helper page every
  scroll-and-restore is replaced by the lowest-footprint action, and the random choice is
  made by the index that the source computes, which is 0, 1 or 2.
\<close>

definition scrollAction :: "host \<Rightarrow> action" where
  "scrollAction h = (if isFileHelper h then lowestFootprint h else ScrollAndRestore)"

definition choiceByIndex :: "int \<Rightarrow> 'a \<Rightarrow> 'a \<Rightarrow> 'a \<Rightarrow> 'a" where
  "choiceByIndex i a b c = (if i = 0 then a else if i = 1 then b else c)"

definition selectAction :: "host \<Rightarrow> state \<Rightarrow> action" where
  "selectAction h s =
     (if hidden h \<and> truthy (getField (config s) ''enableBackgroundKeepAlive'')
      then lowestFootprint h
      else if getField (config s) ''riskLevel'' = JStr ''low'' then scrollAction h
      else choiceByIndex (randomIndex h s) (scrollAction h) MouseMove Focus)"

text \<open>
  The browser calls of an action that stand outside every \<open>try\<close> block, in the order in
  which the action makes them, and the first error among a list of calls.
\<close>

definition unguarded :: "action \<Rightarrow> hostop list" where
  "unguarded a =
     (case a of
        StoragePulse \<Rightarrow> []
      | MinimalScroll \<Rightarrow> [WindowScrollBy]
      | ScrollAndRestore \<Rightarrow> [WindowScrollBy]
      | MouseMove \<Rightarrow> [NewMouseEvent, DocumentDispatchEvent]
      | Focus \<Rightarrow> [NewEvent, WindowDispatchEvent])"

fun firstError :: "host \<Rightarrow> hostop list \<Rightarrow> exn option" where
  "firstError h [] = None"
| "firstError h (op # ops) =
     (case throws h op of Some e \<Rightarrow> Some e | None \<Rightarrow> firstError h ops)"

text \<open>
  The branch of the policy that draws a random number: neither the background branch nor
  profile \<open>low\<close>. Only there is the index computed.
\<close>

definition choosesAtRandom :: "host \<Rightarrow> state \<Rightarrow> bool" where
  "choosesAtRandom h s =
     (\<not> (hidden h \<and> truthy (getField (config s) ''enableBackgroundKeepAlive'')) \<and>
      getField (config s) ''riskLevel'' \<noteq> JStr ''low'')"

text \<open>The state in which the random branch performs its action: one draw is consumed.\<close>

definition afterDraw :: "host \<Rightarrow> state \<Rightarrow> state" where
  "afterDraw h s =
     (if hidden h \<and> truthy (getField (config s) ''enableBackgroundKeepAlive'') then s
      else if getField (config s) ''riskLevel'' = JStr ''low'' then s
      else s\<lparr>randomUsed := Suc (randomUsed s)\<rparr>)"

text \<open>The recurring timer is untouched: the same timers run and the keeper holds the same
  identifier.\<close>

definition sameTimer :: "state \<Rightarrow> state \<Rightarrow> bool" where
  "sameTimer s s' = (intervals s' = intervals s \<and> activityTimer s' = activityTimer s)"

text \<open>No recurring timer is cancelled: every timer that runs before still runs after.\<close>

definition keepsTimers :: "state \<Rightarrow> state \<Rightarrow> bool" where
  "keepsTimers s s' = (set (intervals s) \<subseteq> set (intervals s'))"

section \<open>Example pages\<close>

text \<open>
  A visible chat page on which no browser call raises and the arithmetic is exact. Its
  \<open>JSON.stringify\<close> writes the five documented fields of a record, in the order in which
  \<open>CONFIG\<close> creates them; its \<open>JSON.parse\<close> knows three texts: two complete settings
  records, and a record of another version that lacks fields and carries a field \<open>theme\<close>
  the keeper does not know.
\<close>

definition exact :: "binop \<Rightarrow> real \<Rightarrow> real \<Rightarrow> real" where
  "exact op a b =
     (case op of Times \<Rightarrow> a * b | Divide \<Rightarrow> a / b | Plus \<Rightarrow> a + b | Minus \<Rightarrow> a - b)"

definition showValue :: "jsval \<Rightarrow> string" where
  "showValue v =
     (case v of
        JStr text \<Rightarrow> ''\"'' @ text @ ''\"''
      | JBool b \<Rightarrow> (if b then ''true'' else ''false'')
      | JNum n \<Rightarrow> showInt \<lfloor>n\<rfloor>
      | _ \<Rightarrow> ''null'')"

definition stringifySettings :: "jsobj \<Rightarrow> string" where
  "stringifySettings obj =
     ''{\"riskLevel\":'' @ showValue (getField obj ''riskLevel'') @
     '',\"enableWebSocketMonitor\":'' @ showValue (getField obj ''enableWebSocketMonitor'') @
     '',\"enableBackgroundKeepAlive\":'' @ showValue (getField obj ''enableBackgroundKeepAlive'') @
     '',\"activityInterval\":'' @ showValue (getField obj ''activityInterval'') @
     '',\"debugMode\":'' @ showValue (getField obj ''debugMode'') @ ''}''"

definition settingsText :: string where
  "settingsText =
     ''{\"riskLevel\":\"high\",\"enableWebSocketMonitor\":true,'' @
     ''\"enableBackgroundKeepAlive\":false,\"activityInterval\":120000,\"debugMode\":false}''"

definition settingsValue :: jsval where
  "settingsValue =
     JObj [(''riskLevel'', JStr ''high''),
           (''enableWebSocketMonitor'', JBool True),
           (''enableBackgroundKeepAlive'', JBool False),
           (''activityInterval'', JNum 120000),
           (''debugMode'', JBool False)]"

definition updatedText :: string where
  "updatedText =
     ''{\"riskLevel\":\"high\",\"enableWebSocketMonitor\":true,'' @
     ''\"enableBackgroundKeepAlive\":true,\"activityInterval\":300000,\"debugMode\":false}''"

definition updatedValue :: jsval where
  "updatedValue =
     JObj [(''riskLevel'', JStr ''high''),
           (''enableWebSocketMonitor'', JBool True),
           (''enableBackgroundKeepAlive'', JBool True),
           (''activityInterval'', JNum 300000),
           (''debugMode'', JBool False)]"

definition foreignText :: string where
  "foreignText = ''{\"riskLevel\":\"medium\",\"theme\":\"dark\"}''"

definition foreignValue :: jsval where
  "foreignValue = JObj [(''riskLevel'', JStr ''medium''), (''theme'', JStr ''dark'')]"

definition chatPage :: host where
  "chatPage =
     \<lparr>now = 1000000, hidden = False, hostname = ''wx.qq.com'', readyStateLoading = False,
      scrollY = 40, innerWidth = 1280, innerHeight = 720,
      random = (\<lambda>n. 1 / 2), double = exact, throws = (\<lambda>op. None),
      JSON_parse = (\<lambda>text. if text = settingsText then Inr settingsValue
                            else if text = updatedText then Inr updatedValue
                            else if text = foreignText then Inr foreignValue
                            else Inl SyntaxError),
      JSON_stringify = stringifySettings\<rparr>"

text \<open>The same page in the background, on the file-transfer helper host, with a storage
  that refuses every call, with a \<open>window.scrollBy\<close> that raises, and with a
  \<open>document.dispatchEvent\<close> that raises.\<close>

definition hiddenPage :: host where
  "hiddenPage = chatPage\<lparr>hidden := True\<rparr>"

definition helperPage :: host where
  "helperPage = chatPage\<lparr>hostname := ''filehelper.weixin.qq.com''\<rparr>"

definition lockedPage :: host where
  "lockedPage =
     chatPage\<lparr>throws := (\<lambda>op. if op = LocalStorageGetItem \<or> op = LocalStorageSetItem
                                  \<or> op = LocalStorageRemoveItem
                               then Some StorageError else None)\<rparr>"

definition brokenScrollPage :: host where
  "brokenScrollPage =
     chatPage\<lparr>throws := (\<lambda>op. if op = WindowScrollBy then Some DOMError else None)\<rparr>"

definition brokenDispatchPage :: host where
  "brokenDispatchPage =
     chatPage\<lparr>throws := (\<lambda>op. if op = DocumentDispatchEvent then Some DOMError else None)\<rparr>"

text \<open>A hidden page whose storage is full, so that only the write raises, and a browser
  that does not know the options form of \<open>window.scrollTo\<close>.\<close>

definition quotaPage :: host where
  "quotaPage =
     hiddenPage\<lparr>throws := (\<lambda>op. if op = LocalStorageSetItem then Some StorageError else None)\<rparr>"

definition legacyPage :: host where
  "legacyPage =
     chatPage\<lparr>throws := (\<lambda>op. if op = WindowScrollToOptions then Some TypeError else None)\<rparr>"

text \<open>The page state before the script has run, and a keeper holding the complete record.\<close>

definition emptyPage :: state where
  "emptyPage =
     \<lparr>isActive = False, lastActivity = 0, activityTimer = None, config = Map.empty,
      localStorage = Map.empty, timerCount = 0, intervals = [], timeouts = [],
      listeners = [], webSocketPatched = False, randomUsed = 0, effects = []\<rparr>"

definition configured :: state where
  "configured = emptyPage\<lparr>config := assign Map.empty (ownProps settingsValue)\<rparr>"

text \<open>A keeper started on the default settings, idle since time 0, and the same keeper on
  profile \<open>medium\<close>.\<close>

definition runningKeeper :: state where
  "runningKeeper = snd (start (emptyPage\<lparr>config := CONFIG\<rparr>))"

definition mediumKeeper :: state where
  "mediumKeeper = runningKeeper\<lparr>config := CONFIG(''riskLevel'' \<mapsto> JStr ''medium'')\<rparr>"

section \<open>The idle policy agrees with its reference definition\<close>

text \<open>
  C1. For every host and every keeper state, \<open>shouldSimulateActivity\<close> returns what the
  reference definition returns for the idle time \<open>now - lastActivity\<close>: with background
  mode on, true iff the idle time exceeds \<open>getMinInactiveTime\<close>, whatever the visibility;
  with background mode off, true iff the page is visible and the idle time exceeds it.
  The Firefox build, which has no background mode, is the reference definition with the
  mode off.
\<close>

theorem shouldSimulateActivity_refines_spec:
  "shouldSimulateActivity h s =
     shouldAct_spec (truthy (getField (config s) ''enableBackgroundKeepAlive''))
       (\<not> hidden h) (now h - lastActivity s) (getMinInactiveTime s)
   \<and> firefox_shouldSimulateActivity h s =
     shouldAct_spec False (\<not> hidden h) (now h - lastActivity s) (getMinInactiveTime s)"
  by (simp add: shouldSimulateActivity_def firefox_shouldSimulateActivity_def
      shouldAct_spec_def Let_def)

text \<open>On a hidden page idle for 1000 seconds the default settings permit an action, and
  the Firefox build does not.\<close>

theorem shouldSimulateActivity_refines_spec_witness:
  "shouldSimulateActivity hiddenPage (emptyPage\<lparr>config := CONFIG\<rparr>) \<and>
   \<not> firefox_shouldSimulateActivity hiddenPage (emptyPage\<lparr>config := CONFIG\<rparr>)"
  using shouldSimulateActivity_refines_spec [of hiddenPage "emptyPage\<lparr>config := CONFIG\<rparr>"]
  by (simp add: shouldAct_spec_def getMinInactiveTime_def getField_def CONFIG_def
      hiddenPage_def chatPage_def emptyPage_def)

section \<open>Durations of the safety profiles\<close>

text \<open>
  C6. Every value of \<open>riskLevel\<close> maps to a defined pair of durations (in milliseconds):
  \<open>low\<close> to 300 s and 240 s, \<open>medium\<close> to 120 s and 90 s, \<open>high\<close> to 60 s and 45 s; any
  other value falls back to the configured \<open>activityInterval\<close> for the tick and to 180 s
  for the idle threshold. The idle threshold is never negative, and the tick interval is
  a non-negative duration whenever the configured interval is one.
\<close>

theorem profile_durations:
  "(getField (config s) ''riskLevel'' = JStr ''low'' \<longrightarrow>
      getActivityInterval s = JNum (300 * 1000) \<and> getMinInactiveTime s = 240 * 1000) \<and>
   (getField (config s) ''riskLevel'' = JStr ''medium'' \<longrightarrow>
      getActivityInterval s = JNum (120 * 1000) \<and> getMinInactiveTime s = 90 * 1000) \<and>
   (getField (config s) ''riskLevel'' = JStr ''high'' \<longrightarrow>
      getActivityInterval s = JNum (60 * 1000) \<and> getMinInactiveTime s = 45 * 1000) \<and>
   (getField (config s) ''riskLevel'' \<notin> {JStr ''low'', JStr ''medium'', JStr ''high''} \<longrightarrow>
      getActivityInterval s = getField (config s) ''activityInterval'' \<and>
      getMinInactiveTime s = 180 * 1000) \<and>
   0 \<le> getMinInactiveTime s \<and>
   (nonNegativeDuration (getField (config s) ''activityInterval'') \<longrightarrow>
      nonNegativeDuration (getActivityInterval s))"
  by (simp add: getActivityInterval_def getMinInactiveTime_def Let_def nonNegativeDuration_def)

theorem profile_durations_witness:
  "getActivityInterval (emptyPage\<lparr>config := CONFIG\<rparr>) = JNum 300000 \<and>
   getMinInactiveTime (emptyPage\<lparr>config := CONFIG\<rparr>) = 240000 \<and>
   getActivityInterval (emptyPage\<lparr>config := [''riskLevel'' \<mapsto> JStr ''medium'']\<rparr>) = JNum 120000 \<and>
   getMinInactiveTime (emptyPage\<lparr>config := [''riskLevel'' \<mapsto> JStr ''medium'']\<rparr>) = 90000 \<and>
   getActivityInterval (emptyPage\<lparr>config := [''riskLevel'' \<mapsto> JStr ''high'']\<rparr>) = JNum 60000 \<and>
   getMinInactiveTime (emptyPage\<lparr>config := [''riskLevel'' \<mapsto> JStr ''high'']\<rparr>) = 45000 \<and>
   getActivityInterval
     (emptyPage\<lparr>config := [''riskLevel'' \<mapsto> JStr ''custom'', ''activityInterval'' \<mapsto> JNum 90000]\<rparr>)
     = JNum 90000 \<and>
   getMinInactiveTime
     (emptyPage\<lparr>config := [''riskLevel'' \<mapsto> JStr ''custom'', ''activityInterval'' \<mapsto> JNum 90000]\<rparr>)
     = 180000 \<and>
   nonNegativeDuration (getActivityInterval
     (emptyPage\<lparr>config := [''riskLevel'' \<mapsto> JStr ''custom'', ''activityInterval'' \<mapsto> JNum 90000]\<rparr>))"
  using profile_durations [of "emptyPage\<lparr>config := CONFIG\<rparr>"]
    profile_durations [of "emptyPage\<lparr>config := [''riskLevel'' \<mapsto> JStr ''medium'']\<rparr>"]
    profile_durations [of "emptyPage\<lparr>config := [''riskLevel'' \<mapsto> JStr ''high'']\<rparr>"]
    profile_durations [of "emptyPage\<lparr>config :=
        [''riskLevel'' \<mapsto> JStr ''custom'', ''activityInterval'' \<mapsto> JNum 90000]\<rparr>"]
  by (simp add: getField_def CONFIG_def nonNegativeDuration_def)

section \<open>The settings store\<close>

subsection \<open>Merging fields\<close>

lemma assign_Nil: "assign m [] = m"
  by (simp add: assign_def)

lemma assign_Cons: "assign m ((k, v) # kvs) = assign (m(k \<mapsto> v)) kvs"
  by (simp add: assign_def)

lemma assign_apply:
  "assign m kvs k = (case map_of (rev kvs) k of None \<Rightarrow> m k | Some v \<Rightarrow> Some v)"
proof (induction kvs arbitrary: m)
  case Nil
  show ?case by (simp add: assign_Nil)
next
  case (Cons p kvs)
  obtain k' v' where p: "p = (k', v')" by (cases p)
  show ?case
    by (simp add: p assign_Cons Cons.IH map_of_append map_add_def split: option.splits)
qed

subsection \<open>Loading and saving complete normally\<close>

lemma loadConfig_normal: "fst (loadConfig h s) = None"
  by (simp add: loadConfig_def tryCatch_def split: prod.splits option.splits)

lemma saveConfig_normal: "fst (saveConfig h s) = None"
  by (simp add: saveConfig_def tryCatch_def split: prod.splits option.splits)

lemma constructor_normal: "fst (constructor h s) = None"
  using loadConfig_normal [of h "s\<lparr>isActive := False, lastActivity := now h, activityTimer := None, config := CONFIG\<rparr>"]
  by (auto simp add: constructor_def seq_def init_def split: prod.splits option.splits)

lemma saveConfig_config: "config (snd (saveConfig h s)) = config s"
  by (simp add: saveConfig_def tryCatch_def setItem_def hostCall_def emit_def split: option.splits)

lemma saveConfig_localStorage:
  "localStorage (snd (saveConfig h s)) =
     (case throws h LocalStorageSetItem of
        None \<Rightarrow> (localStorage s)(configKey \<mapsto> JSON_stringify h (config s))
      | Some e \<Rightarrow> localStorage s)"
  by (simp add: saveConfig_def tryCatch_def setItem_def hostCall_def emit_def split: option.splits)

subsection \<open>What loading leaves in memory\<close>

lemma loadConfig_config:
  "config (snd (loadConfig h s)) =
     (case getItem h configKey s of
        Inl e \<Rightarrow> config s
      | Inr stored \<Rightarrow>
          (if isStored stored then
             (case JSON_parse h (the stored) of
                Inl e \<Rightarrow> config s
              | Inr v \<Rightarrow> assign (config s) (ownProps v))
           else if isFileHelper h then
             (config s)(''riskLevel'' \<mapsto> JStr ''low'',
                        ''enableBackgroundKeepAlive'' \<mapsto> JBool True,
                        ''activityInterval'' \<mapsto> JNum 300000)
           else config s))"
  by (auto simp add: loadConfig_def loadConfig_try_def tryCatch_def seq_def mergeStored_def
      fileHelperDefaults_def isStored_def emit_def split: sum.splits option.splits)

lemma constructor_config:
  "config (snd (constructor h s)) = config (snd (loadConfig h (s\<lparr>isActive := False, lastActivity := now h, activityTimer := None, config := CONFIG\<rparr>)))"
  using loadConfig_normal [of h "s\<lparr>isActive := False, lastActivity := now h, activityTimer := None, config := CONFIG\<rparr>"]
  by (auto simp add: constructor_def seq_def init_def setTimeout_def split: prod.splits option.splits)

lemma getItem_update [simp]:
  "getItem h k (s\<lparr>isActive := a, lastActivity := b, activityTimer := c, config := d\<rparr>) = getItem h k s"
  by (simp add: getItem_def split: option.splits)

lemma CONFIG_defaults:
  "CONFIG(''riskLevel'' \<mapsto> JStr ''low'', ''enableBackgroundKeepAlive'' \<mapsto> JBool True,
          ''activityInterval'' \<mapsto> JNum 300000) = CONFIG"
  by (rule ext) (simp add: CONFIG_def)

lemma default_record:
  "CONFIG = [''riskLevel'' \<mapsto> JStr ''low'', ''enableBackgroundKeepAlive'' \<mapsto> JBool True,
         ''enableWebSocketMonitor'' \<mapsto> JBool True, ''debugMode'' \<mapsto> JBool False,
         ''activityInterval'' \<mapsto> JNum (300 * 1000)]"
  by (rule ext) (simp add: CONFIG_def)

lemma constructor_defaults:
  assumes "recordMissing h s \<or> recordMalformed h s"
  shows "config (snd (constructor h s)) = CONFIG"
  using assms
  by (auto simp add: constructor_config loadConfig_config recordMissing_def recordMalformed_def
      CONFIG_defaults isStored_def split: sum.splits option.splits)

lemma configured_config:
  "config configured =
     [''riskLevel'' \<mapsto> JStr ''high'', ''enableWebSocketMonitor'' \<mapsto> JBool True,
      ''enableBackgroundKeepAlive'' \<mapsto> JBool False, ''activityInterval'' \<mapsto> JNum 120000,
      ''debugMode'' \<mapsto> JBool False]"
  by (simp add: configured_def emptyPage_def settingsValue_def assign_def)

text \<open>
  C3. \<open>loadConfig\<close>, the constructor that calls it, and \<open>saveConfig\<close> always complete
  normally. When the persisted record is missing or malformed, the constructed keeper
  holds the default settings: profile \<open>low\<close>, background mode on, socket monitor on,
  debug logging off, interval 300 seconds. When the storage write raises, \<open>saveConfig\<close>
  leaves the settings in memory as they are and the storage untouched.
\<close>

theorem settings_store_swallows_errors:
  "fst (loadConfig h s) = None \<and> fst (constructor h s) = None \<and> fst (saveConfig h s) = None \<and>
   (recordMissing h s \<or> recordMalformed h s \<longrightarrow>
      config (snd (constructor h s)) =
        [''riskLevel'' \<mapsto> JStr ''low'', ''enableBackgroundKeepAlive'' \<mapsto> JBool True,
         ''enableWebSocketMonitor'' \<mapsto> JBool True, ''debugMode'' \<mapsto> JBool False,
         ''activityInterval'' \<mapsto> JNum (300 * 1000)]) \<and>
   (throws h LocalStorageSetItem \<noteq> None \<longrightarrow>
      config (snd (saveConfig h s)) = config s \<and>
      localStorage (snd (saveConfig h s)) = localStorage s)"
proof -
  have "recordMissing h s \<or> recordMalformed h s \<Longrightarrow> config (snd (constructor h s)) =
        [''riskLevel'' \<mapsto> JStr ''low'', ''enableBackgroundKeepAlive'' \<mapsto> JBool True,
         ''enableWebSocketMonitor'' \<mapsto> JBool True, ''debugMode'' \<mapsto> JBool False,
         ''activityInterval'' \<mapsto> JNum (300 * 1000)]"
    using constructor_defaults default_record by metis
  moreover have "throws h LocalStorageSetItem \<noteq> None \<Longrightarrow>
      localStorage (snd (saveConfig h s)) = localStorage s"
    by (auto simp add: saveConfig_localStorage)
  ultimately show ?thesis
    by (simp add: loadConfig_normal constructor_normal saveConfig_normal saveConfig_config)
qed

text \<open>A storage that refuses every call, and a stored text that is not JSON.\<close>

theorem settings_store_swallows_errors_witness:
  "recordMissing lockedPage emptyPage \<and>
   recordMalformed chatPage (emptyPage\<lparr>localStorage := [configKey \<mapsto> ''{\"riskLevel\":'']\<rparr>) \<and>
   throws lockedPage LocalStorageSetItem \<noteq> None \<and>
   config (snd (constructor lockedPage emptyPage)) ''riskLevel'' = Some (JStr ''low'') \<and>
   config (snd (constructor chatPage (emptyPage\<lparr>localStorage := [configKey \<mapsto> ''{\"riskLevel\":'']\<rparr>)))
     ''activityInterval'' = Some (JNum 300000) \<and>
   localStorage (snd (saveConfig lockedPage configured)) = Map.empty"
proof -
  have a: "recordMissing lockedPage emptyPage"
    by (simp add: recordMissing_def getItem_def lockedPage_def chatPage_def)
  have b: "recordMalformed chatPage (emptyPage\<lparr>localStorage := [configKey \<mapsto> ''{\"riskLevel\":'']\<rparr>)"
    by (simp add: recordMalformed_def getItem_def chatPage_def settingsText_def foreignText_def updatedText_def)
  have c: "throws lockedPage LocalStorageSetItem \<noteq> None"
    by (simp add: lockedPage_def chatPage_def)
  have d: "localStorage configured = Map.empty"
    by (simp add: configured_def emptyPage_def)
  show ?thesis
    using a b c d settings_store_swallows_errors [of lockedPage emptyPage]
      settings_store_swallows_errors [of chatPage "emptyPage\<lparr>localStorage := [configKey \<mapsto> ''{\"riskLevel\":'']\<rparr>"]
      settings_store_swallows_errors [of lockedPage configured]
    by simp
qed

subsection \<open>Round trip\<close>

lemma valid_dom:
  assumes "validSettings c" "c k = None"
  shows "CONFIG k = None"
proof -
  have "c ''riskLevel'' \<noteq> None"
    using assms(1) by (cases "c ''riskLevel''") (simp_all add: validSettings_def)
  moreover have "c ''enableBackgroundKeepAlive'' \<noteq> None"
    using assms(1) by (cases "c ''enableBackgroundKeepAlive''") (simp_all add: validSettings_def)
  moreover have "c ''enableWebSocketMonitor'' \<noteq> None"
    using assms(1) by (cases "c ''enableWebSocketMonitor''") (simp_all add: validSettings_def)
  moreover have "c ''debugMode'' \<noteq> None"
    using assms(1) by (cases "c ''debugMode''") (simp_all add: validSettings_def)
  moreover have "c ''activityInterval'' \<noteq> None"
    using assms(1) by (cases "c ''activityInterval''") (simp_all add: validSettings_def)
  ultimately have "k \<noteq> ''riskLevel''" "k \<noteq> ''enableBackgroundKeepAlive''"
    "k \<noteq> ''enableWebSocketMonitor''" "k \<noteq> ''debugMode''" "k \<noteq> ''activityInterval''"
    using assms(2) by blast+
  then show ?thesis by (simp add: CONFIG_def)
qed

lemma assign_over_defaults:
  assumes "validSettings c" "assign Map.empty kvs = c"
  shows "assign CONFIG kvs = c"
proof (rule ext)
  fix k
  have c: "c k = map_of (rev kvs) k"
    using assms(2) assign_apply [of Map.empty kvs k] by (auto split: option.splits)
  show "assign CONFIG kvs k = c k"
  proof (cases "map_of (rev kvs) k")
    case None
    then have "CONFIG k = None" using valid_dom [OF assms(1), of k] c by simp
    then show ?thesis using None c by (simp add: assign_apply)
  next
    case (Some v)
    then show ?thesis using c by (simp add: assign_apply)
  qed
qed

text \<open>
  C4. Saving a valid settings record stores its serialization under the settings key, and
  constructing a keeper anew then gives the same record back, on a page whose storage
  accepts the write and the read and whose \<open>JSON.parse\<close> reads back what
  \<open>JSON.stringify\<close> wrote. The new keeper is constructed on any page state \<open>s'\<close> that
  shares nothing with the saving keeper but the storage: the record comes back from the
  storage, not from memory.
\<close>

theorem settings_round_trip:
  assumes "validSettings (config s)"
    and "throws writer LocalStorageSetItem = None"
    and "throws reader LocalStorageGetItem = None"
    and "jsonReadsBack writer reader (config s)"
    and "localStorage s' = localStorage (snd (saveConfig writer s))"
  shows "localStorage (snd (saveConfig writer s)) configKey =
           Some (JSON_stringify writer (config s)) \<and>
         config (snd (constructor reader s')) = config s"
proof -
  let ?text = "JSON_stringify writer (config s)"
  have nonempty: "?text \<noteq> []" using assms(4) by (simp add: jsonReadsBack_def)
  obtain v where v: "JSON_parse reader ?text = Inr v" "assign Map.empty (ownProps v) = config s"
    using assms(4) by (auto simp add: jsonReadsBack_def split: sum.splits)
  have saved: "localStorage (snd (saveConfig writer s)) configKey = Some ?text"
    using assms(2) by (simp add: saveConfig_localStorage)
  then have "localStorage s' configKey = Some ?text"
    using assms(5) by simp
  then have "getItem reader configKey s' = Inr (Some ?text)"
    using assms(3) by (simp add: getItem_def)
  then have "config (snd (constructor reader s')) = assign CONFIG (ownProps v)"
    using nonempty v(1) by (simp add: constructor_config loadConfig_config isStored_def)
  then show ?thesis
    using saved assign_over_defaults [OF assms(1) v(2)] by simp
qed

text \<open>
  The record is saved by a keeper that holds it and read on a page state that holds no
  settings and nothing of the first keeper but the storage.
\<close>

theorem settings_round_trip_witness:
  "validSettings (config configured) \<and>
   throws chatPage LocalStorageSetItem = None \<and>
   throws chatPage LocalStorageGetItem = None \<and>
   JSON_stringify chatPage (config configured) = settingsText \<and>
   jsonReadsBack chatPage chatPage (config configured) \<and>
   config (emptyPage\<lparr>localStorage := [configKey \<mapsto> settingsText]\<rparr>) = Map.empty \<and>
   config (snd (constructor chatPage (emptyPage\<lparr>localStorage := [configKey \<mapsto> settingsText]\<rparr>)))
     = config configured"
proof -
  let ?s' = "emptyPage\<lparr>localStorage := [configKey \<mapsto> settingsText]\<rparr>"
  have a: "validSettings (config configured)"
    by (simp add: configured_config validSettings_def)
  have b: "throws chatPage LocalStorageSetItem = None" "throws chatPage LocalStorageGetItem = None"
    by (simp_all add: chatPage_def)
  have t: "JSON_stringify chatPage (config configured) = settingsText"
    by (simp add: chatPage_def configured_config stringifySettings_def showValue_def
        getField_def showInt_def settingsText_def)
  have p: "JSON_parse chatPage settingsText = Inr settingsValue"
    by (simp add: chatPage_def)
  have c: "jsonReadsBack chatPage chatPage (config configured)"
    using t p by (simp add: jsonReadsBack_def configured_def emptyPage_def settingsText_def)
  have d: "localStorage ?s' = localStorage (snd (saveConfig chatPage configured))"
    using b(1) t by (simp add: saveConfig_localStorage configured_def emptyPage_def)
  have e: "config ?s' = Map.empty" by (simp add: emptyPage_def)
  show ?thesis
    using a b t c e settings_round_trip [OF a b c d] by simp
qed

subsection \<open>Unknown and missing fields\<close>

text \<open>
  C9, as the source has it. When a record is stored and parses, every field of the stored
  record, documented or not, is copied into the settings in memory with its stored
  value, and every field the record lacks keeps its default.
\<close>

theorem load_keeps_stored_fields:
  assumes "throws h LocalStorageGetItem = None"
    and "localStorage s configKey = Some text"
    and "text \<noteq> []"
    and "JSON_parse h text = Inr v"
  shows "config (snd (constructor h s)) k =
           (case map_of (rev (ownProps v)) k of Some x \<Rightarrow> Some x | None \<Rightarrow> CONFIG k)"
proof -
  have "getItem h configKey s = Inr (Some text)"
    using assms(1,2) by (simp add: getItem_def)
  then have "config (snd (constructor h s)) = assign CONFIG (ownProps v)"
    using assms(3,4) by (simp add: constructor_config loadConfig_config isStored_def)
  then show ?thesis by (simp add: assign_apply)
qed

theorem load_keeps_stored_fields_witness:
  "throws chatPage LocalStorageGetItem = None \<and>
   JSON_parse chatPage foreignText = Inr foreignValue \<and>
   config (snd (constructor chatPage (emptyPage\<lparr>localStorage := [configKey \<mapsto> foreignText]\<rparr>)))
     ''riskLevel'' = Some (JStr ''medium'') \<and>
   config (snd (constructor chatPage (emptyPage\<lparr>localStorage := [configKey \<mapsto> foreignText]\<rparr>)))
     ''debugMode'' = Some (JBool False)"
proof -
  let ?s = "emptyPage\<lparr>localStorage := [configKey \<mapsto> foreignText]\<rparr>"
  have a: "throws chatPage LocalStorageGetItem = None" by (simp add: chatPage_def)
  have b: "localStorage ?s configKey = Some foreignText" by simp
  have c: "foreignText \<noteq> []" by (simp add: foreignText_def updatedText_def)
  have d: "JSON_parse chatPage foreignText = Inr foreignValue"
    by (simp add: chatPage_def foreignText_def updatedText_def settingsText_def)
  show ?thesis
    using a d load_keeps_stored_fields [OF a b c d, of "''riskLevel''"]
      load_keeps_stored_fields [OF a b c d, of "''debugMode''"]
    by (simp add: foreignValue_def CONFIG_def)
qed

text \<open>
  C9, as stated, fails: the stored field \<open>theme\<close>, which is not a documented setting,
  appears in the settings in memory after loading.
\<close>

theorem unknown_field_kept_counterexample:
  "localStorage (emptyPage\<lparr>localStorage := [configKey \<mapsto> foreignText]\<rparr>) configKey = Some foreignText \<and>
   JSON_parse chatPage foreignText = Inr (JObj [(''riskLevel'', JStr ''medium''), (''theme'', JStr ''dark'')]) \<and>
   CONFIG ''theme'' = None \<and>
   config (snd (constructor chatPage (emptyPage\<lparr>localStorage := [configKey \<mapsto> foreignText]\<rparr>)))
     ''theme'' = Some (JStr ''dark'')"
  by (simp add: constructor_config loadConfig_config getItem_def isStored_def chatPage_def
      foreignText_def updatedText_def foreignValue_def settingsText_def emptyPage_def CONFIG_def assign_def)

section \<open>Updating the settings: fields and timer\<close>

lemma saveConfig_eq:
  "saveConfig h s =
     (None, case throws h LocalStorageSetItem of
              None \<Rightarrow> s\<lparr>localStorage := (localStorage s)(configKey \<mapsto> JSON_stringify h (config s))\<rparr>
            | Some e \<Rightarrow> s\<lparr>effects := effects s @ [ConsoleWarn e]\<rparr>)"
  by (simp add: saveConfig_def tryCatch_def setItem_def hostCall_def emit_def split: option.splits)

lemma setupPeriodicActivity_eq:
  "setupPeriodicActivity s =
     (if convertsToNumber (getActivityInterval s)
      then (None, s\<lparr>timerCount := Suc (timerCount s),
                    intervals := intervals s @ [(Suc (timerCount s), getActivityInterval s)],
                    activityTimer := Some (Suc (timerCount s))\<rparr>)
      else (Some TypeError, s))"
  by (simp add: setupPeriodicActivity_def setInterval_def Let_def)

lemma getActivityInterval_update [simp]:
  "getActivityInterval (s\<lparr>intervals := a\<rparr>) = getActivityInterval s"
  "getActivityInterval (s\<lparr>localStorage := b\<rparr>) = getActivityInterval s"
  "getActivityInterval (s\<lparr>effects := c\<rparr>) = getActivityInterval s"
  "getActivityInterval (clearInterval t s) = getActivityInterval s"
  by (simp_all add: getActivityInterval_def Let_def clearInterval_def)

lemma restartTimer_eq:
  "restartTimer s =
     (case activityTimer s of
        None \<Rightarrow> (None, s)
      | Some t \<Rightarrow>
          if t = 0 then (None, s)
          else if convertsToNumber (getActivityInterval s)
          then (None, s\<lparr>timerCount := Suc (timerCount s),
                        intervals := filter (\<lambda>(i, delay). i \<noteq> t) (intervals s) @
                                       [(Suc (timerCount s), getActivityInterval s)],
                        activityTimer := Some (Suc (timerCount s))\<rparr>)
          else (Some TypeError, s\<lparr>intervals := filter (\<lambda>(i, delay). i \<noteq> t) (intervals s)\<rparr>))"
  by (simp add: restartTimer_def setupPeriodicActivity_eq clearInterval_def split: option.splits)

lemma updateConfig_eq:
  "updateConfig h p s =
     (if config s ''__proto__'' \<noteq> None \<or> map_of (ownProps p) ''__proto__'' \<noteq> None then None
      else Some (restartTimer (snd (saveConfig h (s\<lparr>config := assign (config s) (ownProps p)\<rparr>)))))"
  by (simp add: updateConfig_def objectAssign_def seq_def saveConfig_eq)

lemma assign_other:
  "k \<notin> fst ` set kvs \<Longrightarrow> assign m kvs k = m k"
proof -
  assume "k \<notin> fst ` set kvs"
  then have "k \<notin> fst ` set (rev kvs)" by simp
  then have "map_of (rev kvs) k = None" by (simp add: map_of_eq_None_iff)
  then show ?thesis by (simp add: assign_apply)
qed

lemma stop_stopped: "\<not> timerSet (activityTimer (stop s))"
  by (simp add: stop_def timerSet_def clearInterval_def split: option.splits)

lemma stop_cancels:
  "activityTimer s = Some t \<Longrightarrow> t \<noteq> 0 \<Longrightarrow> t \<notin> fst ` set (intervals (stop s))"
  by (auto simp add: stop_def clearInterval_def)

lemma start_CONFIG:
  "start (emptyPage\<lparr>config := CONFIG\<rparr>) =
     (None, emptyPage\<lparr>config := CONFIG, activityTimer := Some 1, timerCount := 1,
       intervals := [(1, JNum 300000)], webSocketPatched := True,
       listeners := [(''visibilitychange'', HVisibilityChange),
         (''mousedown'', HUserActivity), (''mousemove'', HUserActivity),
         (''keypress'', HUserActivity), (''scroll'', HUserActivity),
         (''touchstart'', HUserActivity)]\<rparr>)"
  by (simp add: start_def seq_def setupPageVisibilityMonitor_def
      setupUserActivityMonitor_def setupPeriodicActivity_eq setupWebSocketMonitor_def Let_def
      getActivityInterval_def getField_def CONFIG_def emptyPage_def)

lemma runningKeeper_eq:
  "runningKeeper =
     emptyPage\<lparr>config := CONFIG, activityTimer := Some 1, timerCount := 1,
       intervals := [(1, JNum 300000)], webSocketPatched := True,
       listeners := [(''visibilitychange'', HVisibilityChange),
         (''mousedown'', HUserActivity), (''mousemove'', HUserActivity),
         (''keypress'', HUserActivity), (''scroll'', HUserActivity),
         (''touchstart'', HUserActivity)]\<rparr>"
  by (simp add: runningKeeper_def start_CONFIG)

text \<open>
  C5. On a keeper whose settings have no field \<open>__proto__\<close>, \<open>updateConfig\<close> with an empty
  partial record leaves every settings field as it was. When the recurring timer is set
  and the interval of the settings converts to a number, as every number does, it
  completes normally, cancels that timer and starts a new one with the interval of the
  unchanged settings; when no timer is set it completes normally.
\<close>

theorem updateConfig_empty_restarts_timer:
  "config s ''__proto__'' = None \<longrightarrow>
     (case updateConfig h (JObj []) s of
        None \<Rightarrow> False
      | Some r \<Rightarrow>
          config (snd r) = config s \<and>
          (\<not> timerSet (activityTimer s) \<longrightarrow> fst r = None) \<and>
          (\<forall>t. activityTimer s = Some t \<and> t \<noteq> 0 \<and>
                convertsToNumber (getActivityInterval s) \<longrightarrow>
             fst r = None \<and>
             activityTimer (snd r) = Some (Suc (timerCount s)) \<and>
             intervals (snd r) =
               filter (\<lambda>(i, delay). i \<noteq> t) (intervals s) @
                 [(Suc (timerCount s), getActivityInterval s)]))"
  by (auto simp add: updateConfig_eq saveConfig_eq restartTimer_eq assign_Nil timerSet_def
      split: option.splits)

theorem updateConfig_empty_restarts_timer_witness:
  "config runningKeeper ''__proto__'' = None \<and>
   convertsToNumber (getActivityInterval runningKeeper) \<and>
   activityTimer runningKeeper = Some 1 \<and>
   intervals runningKeeper = [(1, JNum 300000)] \<and>
   updateConfig chatPage (JObj []) runningKeeper =
     Some (None, runningKeeper\<lparr>activityTimer := Some 2, timerCount := 2,
                   intervals := [(2, JNum 300000)],
                   localStorage := [configKey \<mapsto> stringifySettings CONFIG]\<rparr>)"
proof -
  have a: "config runningKeeper ''__proto__'' = None"
    by (simp add: runningKeeper_eq CONFIG_def)
  have b: "getActivityInterval runningKeeper = JNum 300000"
    by (simp add: runningKeeper_eq getActivityInterval_def getField_def CONFIG_def)
  have c: "activityTimer runningKeeper = Some 1" "intervals runningKeeper = [(1, JNum 300000)]"
    "timerCount runningKeeper = 1" "config runningKeeper = CONFIG"
    "localStorage runningKeeper = Map.empty"
    by (simp_all add: runningKeeper_eq emptyPage_def)
  have d: "throws chatPage LocalStorageSetItem = None"
    "JSON_stringify chatPage = stringifySettings"
    by (simp_all add: chatPage_def)
  have e: "updateConfig chatPage (JObj []) runningKeeper =
     Some (None, runningKeeper\<lparr>activityTimer := Some 2, timerCount := 2,
                   intervals := [(2, JNum 300000)],
                   localStorage := [configKey \<mapsto> stringifySettings CONFIG]\<rparr>)"
    using a d
    by (simp add: updateConfig_eq saveConfig_eq restartTimer_eq assign_Nil)
       (simp add: runningKeeper_eq emptyPage_def getActivityInterval_def getField_def CONFIG_def)
  show ?thesis
    using a b c e updateConfig_empty_restarts_timer [where s = runningKeeper and h = chatPage]
    by simp
qed

text \<open>
  C10. \<open>stop\<close> cancels the recurring timer and clears the keeper's identifier. On a
  stopped keeper \<open>updateConfig\<close> with any partial record, where neither the settings nor
  the partial record has a field \<open>__proto__\<close>, completes normally, creates no timer, leaves
  the keeper stopped, sets the settings to the merge of the old settings and the partial
  record, so that only fields named in the partial record change, and writes the merged
  record to the storage when the storage accepts the write.
\<close>

theorem updateConfig_when_stopped:
  "\<not> timerSet (activityTimer (stop s)) \<and>
   (\<forall>t. activityTimer s = Some t \<and> t \<noteq> 0 \<longrightarrow> t \<notin> fst ` set (intervals (stop s))) \<and>
   (\<not> timerSet (activityTimer s) \<and> config s ''__proto__'' = None \<and>
    map_of (ownProps p) ''__proto__'' = None \<longrightarrow>
      (case updateConfig h p s of
         None \<Rightarrow> False
       | Some r \<Rightarrow>
           fst r = None \<and>
           activityTimer (snd r) = activityTimer s \<and>
           intervals (snd r) = intervals s \<and>
           timerCount (snd r) = timerCount s \<and>
           timeouts (snd r) = timeouts s \<and>
           config (snd r) = assign (config s) (ownProps p) \<and>
           (\<forall>k. k \<notin> fst ` set (ownProps p) \<longrightarrow> config (snd r) k = config s k) \<and>
           (throws h LocalStorageSetItem = None \<longrightarrow>
              localStorage (snd r) configKey =
                Some (JSON_stringify h (assign (config s) (ownProps p))))))"
  using stop_stopped [of s] stop_cancels [of s]
  by (auto simp add: updateConfig_eq saveConfig_eq restartTimer_eq timerSet_def assign_other
      Let_def split: option.splits)

theorem updateConfig_when_stopped_witness:
  "\<not> timerSet (activityTimer (stop runningKeeper)) \<and>
   intervals (stop runningKeeper) = [] \<and>
   config (stop runningKeeper) ''__proto__'' = None \<and>
   map_of (ownProps (JObj [(''riskLevel'', JStr ''high'')])) ''__proto__'' = None \<and>
   updateConfig chatPage (JObj [(''riskLevel'', JStr ''high'')]) (stop runningKeeper) =
     Some (None, (stop runningKeeper)
                   \<lparr>config := CONFIG(''riskLevel'' \<mapsto> JStr ''high''),
                    localStorage := [configKey \<mapsto> updatedText]\<rparr>) \<and>
   intervals (stop runningKeeper
                \<lparr>config := CONFIG(''riskLevel'' \<mapsto> JStr ''high''),
                 localStorage := [configKey \<mapsto> updatedText]\<rparr>) = [] \<and>
   JSON_parse chatPage updatedText = Inr updatedValue"
proof -
  let ?p = "JObj [(''riskLevel'', JStr ''high'')]"
  have a: "stop runningKeeper = runningKeeper\<lparr>intervals := [], activityTimer := None\<rparr>"
    by (simp add: runningKeeper_eq stop_def clearInterval_def)
  have b: "throws chatPage LocalStorageSetItem = None"
    "JSON_stringify chatPage = stringifySettings"
    by (simp_all add: chatPage_def)
  have c: "config runningKeeper = CONFIG" "localStorage runningKeeper = Map.empty"
    by (simp_all add: runningKeeper_eq emptyPage_def)
  have d: "CONFIG ''__proto__'' = None" by (simp add: CONFIG_def)
  have e: "stringifySettings (CONFIG(''riskLevel'' \<mapsto> JStr ''high'')) = updatedText"
    by (simp add: stringifySettings_def showValue_def getField_def showInt_def CONFIG_def
        updatedText_def)
  have f: "updateConfig chatPage ?p (stop runningKeeper) =
     Some (None, (stop runningKeeper)
                   \<lparr>config := CONFIG(''riskLevel'' \<mapsto> JStr ''high''),
                    localStorage := [configKey \<mapsto> updatedText]\<rparr>)"
    using b c d e
    by (simp add: a updateConfig_eq saveConfig_eq restartTimer_eq assign_def)
  have g: "JSON_parse chatPage updatedText = Inr updatedValue"
    by (simp add: chatPage_def updatedText_def settingsText_def)
  show ?thesis
    using f g d
      updateConfig_when_stopped [where s = runningKeeper and h = chatPage and p = ?p]
      updateConfig_when_stopped [where s = "stop runningKeeper" and h = chatPage and p = ?p]
    by (simp add: a c timerSet_def)
qed

section \<open>Real input and visibility changes\<close>

lemma start_listeners:
  "listeners (snd (start s)) =
     listeners s @
       [(''visibilitychange'', HVisibilityChange),
        (''mousedown'', HUserActivity), (''mousemove'', HUserActivity),
        (''keypress'', HUserActivity), (''scroll'', HUserActivity),
        (''touchstart'', HUserActivity)]"
  by (simp add: start_def seq_def setupPageVisibilityMonitor_def setupUserActivityMonitor_def
      setupPeriodicActivity_eq setupWebSocketMonitor_def Let_def)

lemma start_watching: "listeners s = [] \<Longrightarrow> watching (snd (start s))"
  by (simp add: watching_def handlersFor_def inputEvents_def start_listeners)

lemma fireEvent_input:
  assumes "watching s"
    and "event \<in> set [''mousedown'', ''mousemove'', ''keypress'', ''scroll'', ''touchstart'']"
  shows "fireEvent h event s = s\<lparr>lastActivity := now h, isActive := True\<rparr>"
proof -
  have "event \<in> set inputEvents"
    using assms(2) by (simp add: inputEvents_def)
  then have "handlersFor event s = [HUserActivity]"
    using assms(1) by (simp only: watching_def)
  then show ?thesis
    by (simp add: fireEvent_def runHandler_def onUserActivity_def reportUncaught_def)
qed

lemma fireEvent_visibility:
  assumes "watching s"
  shows "fireEvent h ''visibilitychange'' s = (if hidden h then s else onPageActive h s)"
  using assms
  by (simp add: fireEvent_def watching_def runHandler_def reportUncaught_def)

lemma fireTimeout_last:
  "fireTimeout h (length (timeouts s)) (s\<lparr>timeouts := timeouts s @ [(delay, cb)]\<rparr>) =
     reportUncaught (runCallback h cb s)"
  by (simp add: fireTimeout_def)

text \<open>
  C8. On a keeper with its watchers installed, a real input event (pointer press, pointer
  move, key press, scroll, touch start) sets \<open>lastActivity\<close> to now and changes nothing
  else but \<open>isActive\<close>; a visibility change on a visible page sets \<open>lastActivity\<close> to now and
  schedules exactly one callback, one second later; a visibility change on a hidden page
  changes nothing. When the browser fires the scheduled callback, it runs
  \<open>simulateNaturalActivity\<close> with no idle check before it.
\<close>

theorem watchers_record_activity:
  "watching s \<longrightarrow>
     (event \<in> set [''mousedown'', ''mousemove'', ''keypress'', ''scroll'', ''touchstart''] \<longrightarrow>
        fireEvent h event s = s\<lparr>lastActivity := now h, isActive := True\<rparr>) \<and>
     (\<not> hidden h \<longrightarrow>
        fireEvent h ''visibilitychange'' s =
          s\<lparr>isActive := True, lastActivity := now h,
            timeouts := timeouts s @ [(1000, CbSimulateNaturalActivity)]\<rparr>) \<and>
     (hidden h \<longrightarrow> fireEvent h ''visibilitychange'' s = s) \<and>
     (\<not> hidden h \<longrightarrow>
        fireTimeout h' (length (timeouts s)) (fireEvent h ''visibilitychange'' s) =
          reportUncaught
            (simulateNaturalActivity h' (s\<lparr>isActive := True, lastActivity := now h\<rparr>)))"
  using fireEvent_input [of s event h] fireEvent_visibility [of s h]
    fireTimeout_last [of h' "s\<lparr>isActive := True, lastActivity := now h\<rparr>" 1000
      CbSimulateNaturalActivity]
  by (simp add: onPageActive_def setTimeout_def runCallback_def)

theorem watchers_record_activity_witness:
  "watching runningKeeper \<and>
   lastActivity runningKeeper = 0 \<and>
   lastActivity (fireEvent chatPage ''scroll'' runningKeeper) = 1000000 \<and>
   timeouts (fireEvent chatPage ''scroll'' runningKeeper) = [] \<and>
   lastActivity (fireEvent chatPage ''visibilitychange'' runningKeeper) = 1000000 \<and>
   timeouts (fireEvent chatPage ''visibilitychange'' runningKeeper) = [(1000, CbSimulateNaturalActivity)] \<and>
   fireEvent hiddenPage ''visibilitychange'' runningKeeper = runningKeeper"
proof -
  have a: "watching runningKeeper"
    by (simp add: runningKeeper_eq watching_def handlersFor_def inputEvents_def)
  have b: "\<not> hidden chatPage" "hidden hiddenPage" "now chatPage = 1000000"
    by (simp_all add: chatPage_def hiddenPage_def)
  have c: "lastActivity runningKeeper = 0" "timeouts runningKeeper = []"
    by (simp_all add: runningKeeper_eq emptyPage_def)
  show ?thesis
    using a b c watchers_record_activity [of runningKeeper "''scroll''" chatPage]
      watchers_record_activity [of runningKeeper "''scroll''" hiddenPage]
    by simp
qed

section \<open>Selection and failure of the synthetic actions\<close>

subsection \<open>Each action, by which browser call raises\<close>

lemma simulateMinimalScroll_eq:
  "simulateMinimalScroll h s =
     (case throws h WindowScrollBy of
        None \<Rightarrow> (None, perform h MinimalScroll s)
      | Some e \<Rightarrow> (Some e, s))"
  by (simp add: simulateMinimalScroll_def seq_def hostCall_def emit_def setTimeout_def
      perform_def split: option.splits)

lemma simulateBackgroundActivity_eq:
  "simulateBackgroundActivity h s =
     (case throws h LocalStorageSetItem of
        None \<Rightarrow> (None, perform h StoragePulse s)
      | Some e \<Rightarrow> simulateMinimalScroll h s)"
  by (simp add: simulateBackgroundActivity_def tryCatch_def seq_def setItem_def hostCall_def
      setTimeout_def perform_def split: option.splits)

lemma simulateScroll_eq:
  "simulateScroll h s =
     (if isFileHelper h then simulateBackgroundActivity h s
      else (case throws h WindowScrollBy of
              None \<Rightarrow> (None, perform h ScrollAndRestore s)
            | Some e \<Rightarrow> (Some e, s)))"
  by (simp add: simulateScroll_def seq_def hostCall_def emit_def setTimeout_def
      perform_def split: option.splits)

lemma simulateMouseMove_eq:
  "simulateMouseMove h s =
     (case throws h NewMouseEvent of
        Some e \<Rightarrow> (Some e, s\<lparr>randomUsed := randomUsed s + 2\<rparr>)
      | None \<Rightarrow>
          (case throws h DocumentDispatchEvent of
             Some e \<Rightarrow> (Some e, s\<lparr>randomUsed := randomUsed s + 2\<rparr>)
           | None \<Rightarrow> (None, perform h MouseMove s)))"
  by (simp add: simulateMouseMove_def seq_def hostCall_def emit_def perform_def Let_def
      split: option.splits)

lemma simulateFocus_eq:
  "simulateFocus h s =
     (case throws h NewEvent of
        Some e \<Rightarrow> (Some e, s)
      | None \<Rightarrow>
          (case throws h WindowDispatchEvent of
             Some e \<Rightarrow> (Some e, s)
           | None \<Rightarrow> (None, perform h Focus s)))"
  by (simp add: simulateFocus_def seq_def hostCall_def emit_def perform_def split: option.splits)

lemma restoreScroll_eq:
  "restoreScroll h y s =
     (case throws h WindowScrollToOptions of
        None \<Rightarrow> (None, emit (ScrollToOptions y) s)
      | Some e \<Rightarrow>
          (case throws h WindowScrollTo of
             None \<Rightarrow> (None, emit (ScrollTo 0 y) s)
           | Some e' \<Rightarrow> (Some e', s)))"
  by (simp add: restoreScroll_def tryCatch_def hostCall_def split: option.splits)

text \<open>
  The outcome of each action: the first error among its unguarded calls leaves the
  action, and without one the action is performed.
\<close>

lemma simulateBackgroundActivity_outcome:
  "simulateBackgroundActivity h s =
     (case firstError h (unguarded (lowestFootprint h)) of
        None \<Rightarrow> (None, perform h (lowestFootprint h) s)
      | Some e \<Rightarrow> (Some e, s))"
  by (simp add: simulateBackgroundActivity_eq simulateMinimalScroll_eq lowestFootprint_def
      unguarded_def split: option.splits)

lemma simulateScroll_outcome:
  "simulateScroll h s =
     (case firstError h (unguarded (scrollAction h)) of
        None \<Rightarrow> (None, perform h (scrollAction h) s)
      | Some e \<Rightarrow> (Some e, s))"
  by (simp add: simulateScroll_eq simulateBackgroundActivity_outcome scrollAction_def
      unguarded_def split: option.splits)

lemma simulateMouseMove_outcome:
  "simulateMouseMove h s =
     (case firstError h (unguarded MouseMove) of
        None \<Rightarrow> (None, perform h MouseMove s)
      | Some e \<Rightarrow> (Some e, s\<lparr>randomUsed := randomUsed s + 2\<rparr>))"
  by (simp add: simulateMouseMove_eq unguarded_def split: option.splits)

lemma simulateFocus_outcome:
  "simulateFocus h s =
     (case firstError h (unguarded Focus) of
        None \<Rightarrow> (None, perform h Focus s)
      | Some e \<Rightarrow> (Some e, s))"
  by (simp add: simulateFocus_eq unguarded_def split: option.splits)

lemma randomActivity_outcome:
  assumes "0 \<le> randomIndex h s" "randomIndex h s \<le> 2"
  shows "randomActivity h s =
     (let a = choiceByIndex (randomIndex h s) (scrollAction h) MouseMove Focus;
          s1 = s\<lparr>randomUsed := Suc (randomUsed s)\<rparr>
      in case firstError h (unguarded a) of
           None \<Rightarrow> (None, perform h a s1)
         | Some e \<Rightarrow>
             (Some e, if randomIndex h s = 1 then s1\<lparr>randomUsed := randomUsed s1 + 2\<rparr> else s1))"
proof -
  consider "randomIndex h s = 0" | "randomIndex h s = 1" | "randomIndex h s = 2"
    using assms by linarith
  then show ?thesis
  proof cases
    case 1
    then show ?thesis
      by (simp add: randomActivity_def choiceByIndex_def simulateScroll_outcome Let_def)
  next
    case 2
    then show ?thesis
      by (simp add: randomActivity_def choiceByIndex_def simulateMouseMove_outcome Let_def)
  next
    case 3
    then show ?thesis
      by (simp add: randomActivity_def choiceByIndex_def simulateFocus_outcome Let_def)
  qed
qed

lemma seq_outcome:
  assumes "f s = (case fe of None \<Rightarrow> (None, p) | Some e \<Rightarrow> (Some e, q))"
  shows "seq f g s = (case fe of None \<Rightarrow> g p | Some e \<Rightarrow> (Some e, q))"
  using assms by (simp add: seq_def split: option.splits)

lemma simulateNaturalActivity_eq:
  assumes "choosesAtRandom h s \<longrightarrow> 0 \<le> randomIndex h s \<and> randomIndex h s \<le> 2"
  shows "simulateNaturalActivity h s =
     (case firstError h (unguarded (selectAction h s)) of
        None \<Rightarrow> (None, (perform h (selectAction h s) (afterDraw h s))\<lparr>lastActivity := now h\<rparr>)
      | Some e \<Rightarrow>
          (Some e, if selectAction h s = MouseMove
                   then (afterDraw h s)\<lparr>randomUsed := randomUsed (afterDraw h s) + 2\<rparr>
                   else afterDraw h s))"
proof -
  let ?touch = "\<lambda>s'. (None, s'\<lparr>lastActivity := now h\<rparr>)"
  consider (background) "hidden h \<and> truthy (getField (config s) ''enableBackgroundKeepAlive'')"
    | (low) "\<not> (hidden h \<and> truthy (getField (config s) ''enableBackgroundKeepAlive''))"
        "getField (config s) ''riskLevel'' = JStr ''low''"
    | (random) "\<not> (hidden h \<and> truthy (getField (config s) ''enableBackgroundKeepAlive''))"
        "getField (config s) ''riskLevel'' \<noteq> JStr ''low''"
    by blast
  then show ?thesis
  proof cases
    case background
    have a: "selectAction h s = lowestFootprint h" "afterDraw h s = s"
      using background by (simp_all add: selectAction_def afterDraw_def)
    have b: "lowestFootprint h \<noteq> MouseMove"
      by (simp add: lowestFootprint_def split: option.splits)
    have "simulateNaturalActivity h s = seq (simulateBackgroundActivity h) ?touch s"
      using background by (simp add: simulateNaturalActivity_def)
    also have "\<dots> = (case firstError h (unguarded (lowestFootprint h)) of
                        None \<Rightarrow> ?touch (perform h (lowestFootprint h) s)
                      | Some e \<Rightarrow> (Some e, s))"
      by (rule seq_outcome) (rule simulateBackgroundActivity_outcome)
    finally show ?thesis using a b by (simp split: option.splits)
  next
    case low
    have a: "selectAction h s = scrollAction h" "afterDraw h s = s"
      using low by (auto simp add: selectAction_def afterDraw_def)
    have b: "scrollAction h \<noteq> MouseMove"
      by (simp add: scrollAction_def lowestFootprint_def split: option.splits)
    have "simulateNaturalActivity h s = seq (simulateScroll h) ?touch s"
      using low by (auto simp add: simulateNaturalActivity_def)
    also have "\<dots> = (case firstError h (unguarded (scrollAction h)) of
                        None \<Rightarrow> ?touch (perform h (scrollAction h) s)
                      | Some e \<Rightarrow> (Some e, s))"
      by (rule seq_outcome) (rule simulateScroll_outcome)
    finally show ?thesis using a b by (simp split: option.splits)
  next
    case random
    let ?a = "choiceByIndex (randomIndex h s) (scrollAction h) MouseMove Focus"
    let ?s1 = "s\<lparr>randomUsed := Suc (randomUsed s)\<rparr>"
    let ?q = "if randomIndex h s = 1 then ?s1\<lparr>randomUsed := randomUsed ?s1 + 2\<rparr> else ?s1"
    have a: "selectAction h s = ?a" "afterDraw h s = ?s1"
      using random by (auto simp add: selectAction_def afterDraw_def)
    have b: "scrollAction h \<noteq> MouseMove"
      by (simp add: scrollAction_def lowestFootprint_def split: option.splits)
    have c: "(?a = MouseMove) = (randomIndex h s = 1)"
      using b by (simp add: choiceByIndex_def)
    have idx: "0 \<le> randomIndex h s" "randomIndex h s \<le> 2"
      using assms random by (simp_all add: choosesAtRandom_def)
    have "simulateNaturalActivity h s = seq (randomActivity h) ?touch s"
      using random by (auto simp add: simulateNaturalActivity_def)
    also have "\<dots> = (case firstError h (unguarded ?a) of
                        None \<Rightarrow> ?touch (perform h ?a ?s1)
                      | Some e \<Rightarrow> (Some e, ?q))"
      by (rule seq_outcome) (simp only: randomActivity_outcome [OF idx] Let_def)
    finally show ?thesis using a c by (simp split: option.splits)
  qed
qed

lemma afterDraw_fields:
  "lastActivity (afterDraw h s) = lastActivity s"
  "effects (afterDraw h s) = effects s"
  "localStorage (afterDraw h s) = localStorage s"
  "timeouts (afterDraw h s) = timeouts s"
  "intervals (afterDraw h s) = intervals s"
  "activityTimer (afterDraw h s) = activityTimer s"
  by (simp_all add: afterDraw_def)

lemma simulateNaturalActivity_outcome:
  assumes "choosesAtRandom h s \<longrightarrow> 0 \<le> randomIndex h s \<and> randomIndex h s \<le> 2"
  shows "fst (simulateNaturalActivity h s) = firstError h (unguarded (selectAction h s))"
    and "firstError h (unguarded (selectAction h s)) = None \<Longrightarrow>
           simulateNaturalActivity h s =
             (None, (perform h (selectAction h s) (afterDraw h s))\<lparr>lastActivity := now h\<rparr>)"
    and "firstError h (unguarded (selectAction h s)) \<noteq> None \<Longrightarrow>
           lastActivity (snd (simulateNaturalActivity h s)) = lastActivity s \<and>
           effects (snd (simulateNaturalActivity h s)) = effects s \<and>
           localStorage (snd (simulateNaturalActivity h s)) = localStorage s \<and>
           timeouts (snd (simulateNaturalActivity h s)) = timeouts s"
  by (auto simp add: simulateNaturalActivity_eq [OF assms] afterDraw_fields split: option.splits)

lemma firstError_quiet:
  assumes "\<forall>op. op \<noteq> LocalStorageSetItem \<longrightarrow> throws h op = None"
  shows "firstError h (unguarded a) = None"
  using assms by (cases a) (simp_all add: unguarded_def)

lemma simulateNaturalActivity_quiet:
  assumes "choosesAtRandom h s \<longrightarrow> 0 \<le> randomIndex h s \<and> randomIndex h s \<le> 2"
    and "\<forall>op. op \<noteq> LocalStorageSetItem \<longrightarrow> throws h op = None"
  shows "simulateNaturalActivity h s =
           (None, (perform h (selectAction h s) (afterDraw h s))\<lparr>lastActivity := now h\<rparr>)"
  using simulateNaturalActivity_outcome(2) [OF assms(1)] firstError_quiet [OF assms(2)]
  by simp

lemma floor_thirds:
  fixes r :: real
  assumes "0 \<le> r" "r < 1"
  shows "choiceByIndex \<lfloor>r * 3\<rfloor> a b c = uniformChoice r a b c"
proof -
  have "r < 1 / 3 \<Longrightarrow> \<lfloor>r * 3\<rfloor> = 0" using assms by (simp add: floor_eq_iff)
  moreover have "\<not> r < 1 / 3 \<Longrightarrow> r < 2 / 3 \<Longrightarrow> \<lfloor>r * 3\<rfloor> = 1"
    using assms by (simp add: floor_eq_iff)
  moreover have "\<not> r < 2 / 3 \<Longrightarrow> \<lfloor>r * 3\<rfloor> = 2"
    using assms by (simp add: floor_eq_iff)
  ultimately show ?thesis by (simp add: uniformChoice_def choiceByIndex_def)
qed

lemma quiet_chatPage: "\<forall>op. op \<noteq> LocalStorageSetItem \<longrightarrow> throws chatPage op = None"
  by (simp add: chatPage_def)

lemma runningKeeper_idle:
  "now h = 1000000 \<Longrightarrow> shouldSimulateActivity h runningKeeper"
  by (simp add: shouldSimulateActivity_def getMinInactiveTime_def getField_def CONFIG_def
      runningKeeper_eq emptyPage_def Let_def)

lemma chatPage_index:
  "double h = exact \<Longrightarrow> random h = (\<lambda>n. 1 / 2) \<Longrightarrow> randomIndex h s = 1"
  by (simp add: randomIndex_def exact_def)

lemma mediumKeeper_idle:
  "now h = 1000000 \<Longrightarrow> shouldSimulateActivity h mediumKeeper"
  by (simp add: shouldSimulateActivity_def getMinInactiveTime_def getField_def CONFIG_def
      mediumKeeper_def runningKeeper_eq emptyPage_def Let_def)

subsection \<open>The selection policy\<close>

text \<open>
  C2, as the source has it. When the index that the random branch computes is 0, 1 or 2
  and no browser call other than the storage write raises, \<open>simulateNaturalActivity\<close> performs
  exactly the action of the policy and then sets \<open>lastActivity\<close> to now: the
  lowest-footprint action on a hidden page with background mode; otherwise the scroll
  action for profile \<open>low\<close>; otherwise the scroll action, the pointer move or the focus
  event, by the index \<open>Math.floor(Math.random() * 3)\<close>. The scroll action is
  scroll-and-restore, except on the file-transfer helper page, where it is the
  lowest-footprint action. Off that page, for a draw of the unit interval whose double
  product with 3 has the floor of the exact product, the policy is the one of the
  specification: the choice is the uniform one.
\<close>

theorem simulateNaturalActivity_policy:
  assumes "choosesAtRandom h s \<longrightarrow> 0 \<le> randomIndex h s \<and> randomIndex h s \<le> 2"
    and "\<forall>op. op \<noteq> LocalStorageSetItem \<longrightarrow> throws h op = None"
  shows "simulateNaturalActivity h s =
           (None, (perform h (selectAction h s) (afterDraw h s))\<lparr>lastActivity := now h\<rparr>)
         \<and> (\<not> isFileHelper h \<and> 0 \<le> random h (randomUsed s) \<and> random h (randomUsed s) < 1 \<and>
            randomIndex h s = \<lfloor>random h (randomUsed s) * 3\<rfloor> \<longrightarrow>
              selectAction h s = selectAction_spec h s)"
  using simulateNaturalActivity_quiet [OF assms]
  by (simp add: selectAction_def selectAction_spec_def scrollAction_def floor_thirds)

theorem simulateNaturalActivity_policy_witness:
  "choosesAtRandom chatPage mediumKeeper \<and>
   0 \<le> randomIndex chatPage mediumKeeper \<and>
   randomIndex chatPage mediumKeeper \<le> 2 \<and>
   randomIndex chatPage mediumKeeper = \<lfloor>random chatPage (randomUsed mediumKeeper) * 3\<rfloor> \<and>
   throws chatPage DocumentDispatchEvent = None \<and>
   \<not> isFileHelper chatPage \<and>
   selectAction_spec chatPage mediumKeeper = MouseMove \<and>
   fst (simulateNaturalActivity chatPage mediumKeeper) = None \<and>
   effects (snd (simulateNaturalActivity chatPage mediumKeeper)) = [MouseMoveEvent 640 360] \<and>
   lastActivity (snd (simulateNaturalActivity chatPage mediumKeeper)) = 1000000"
proof -
  have i: "randomIndex chatPage mediumKeeper = 1"
    by (rule chatPage_index) (simp_all add: chatPage_def)
  have a: "choosesAtRandom chatPage mediumKeeper \<longrightarrow>
             0 \<le> randomIndex chatPage mediumKeeper \<and> randomIndex chatPage mediumKeeper \<le> 2"
    using i by simp
  have g: "choosesAtRandom chatPage mediumKeeper"
    by (simp add: choosesAtRandom_def mediumKeeper_def getField_def chatPage_def)
  have r: "random chatPage (randomUsed mediumKeeper) = 1 / 2"
    by (simp add: chatPage_def)
  have b: "\<not> isFileHelper chatPage"
    by (simp add: isFileHelper_def chatPage_def)
  have c: "selectAction_spec chatPage mediumKeeper = MouseMove"
    by (simp add: selectAction_spec_def uniformChoice_def mediumKeeper_def getField_def
        chatPage_def)
  have w: "watching (afterDraw chatPage mediumKeeper)"
    by (simp add: afterDraw_def mediumKeeper_def runningKeeper_eq watching_def handlersFor_def
        inputEvents_def)
  have d: "effects (perform chatPage MouseMove (afterDraw chatPage mediumKeeper))
             = [MouseMoveEvent 640 360]"
    using fireEvent_input [of _ "''mousemove''" chatPage] w
    by (simp add: perform_def watching_def handlersFor_def)
       (simp add: afterDraw_def mediumKeeper_def runningKeeper_eq emptyPage_def chatPage_def
          pointerCoordinate_def exact_def)
  show ?thesis
    using g i r b c d simulateNaturalActivity_policy [OF a quiet_chatPage]
    by (simp add: chatPage_def)
qed

text \<open>
  C2, as stated, fails on the file-transfer helper page: with profile \<open>low\<close> on a visible
  page the specification's policy selects scroll-and-restore, and the keeper writes the
  storage heartbeat and does not scroll. And where \<open>window.scrollBy\<close> raises, the action
  does not complete and \<open>lastActivity\<close> keeps its old value.
\<close>

theorem helper_page_no_scroll_counterexample:
  "\<not> hidden helperPage \<and>
   getField (config runningKeeper) ''riskLevel'' = JStr ''low'' \<and>
   selectAction_spec helperPage runningKeeper = ScrollAndRestore \<and>
   effects (perform helperPage ScrollAndRestore runningKeeper) = [ScrollBy 0 1] \<and>
   fst (simulateNaturalActivity helperPage runningKeeper) = None \<and>
   effects (snd (simulateNaturalActivity helperPage runningKeeper)) = [] \<and>
   localStorage (snd (simulateNaturalActivity helperPage runningKeeper)) heartbeatKey
     = Some ''1000000'' \<and>
   fst (simulateNaturalActivity brokenScrollPage runningKeeper) = Some DOMError \<and>
   lastActivity (snd (simulateNaturalActivity brokenScrollPage runningKeeper)) = 0 \<and>
   now brokenScrollPage = 1000000"
proof -
  have a: "\<not> hidden helperPage" "isFileHelper helperPage" "now helperPage = 1000000"
    "throws helperPage LocalStorageSetItem = None"
    by (simp_all add: helperPage_def chatPage_def isFileHelper_def)
  have b: "getField (config runningKeeper) ''riskLevel'' = JStr ''low''"
    by (simp add: runningKeeper_eq getField_def CONFIG_def)
  have c: "effects runningKeeper = []" by (simp add: runningKeeper_eq emptyPage_def)
  have d: "simulateNaturalActivity helperPage runningKeeper =
             (None, (perform helperPage StoragePulse runningKeeper)\<lparr>lastActivity := 1000000\<rparr>)"
    using a b by (simp add: simulateNaturalActivity_def seq_def simulateScroll_eq
        simulateBackgroundActivity_eq)
  have e: "throws brokenScrollPage WindowScrollBy = Some DOMError"
    "\<not> hidden brokenScrollPage" "\<not> isFileHelper brokenScrollPage"
    "now brokenScrollPage = 1000000"
    by (simp_all add: brokenScrollPage_def chatPage_def isFileHelper_def)
  have f: "simulateNaturalActivity brokenScrollPage runningKeeper = (Some DOMError, runningKeeper)"
    using b e by (simp add: simulateNaturalActivity_def seq_def simulateScroll_eq)
  have g: "lastActivity runningKeeper = 0" by (simp add: runningKeeper_eq emptyPage_def)
  show ?thesis
    using a b c d e f g by (simp add: selectAction_spec_def perform_def showInt_def)
qed

subsection \<open>Errors and the recurring timer\<close>

lemma watching_randomUsed [simp]: "watching (s\<lparr>randomUsed := n\<rparr>) = watching s"
  by (simp add: watching_def handlersFor_def)

lemma perform_timer:
  assumes "watching s"
  shows "intervals (perform h a s) = intervals s \<and> activityTimer (perform h a s) = activityTimer s"
proof (cases a)
  case MouseMove
  let ?s1 = "s\<lparr>randomUsed := randomUsed s + 2,
               effects := effects s @
                 [MouseMoveEvent
                    (pointerCoordinate h (innerWidth h) (random h (randomUsed s)))
                    (pointerCoordinate h (innerHeight h) (random h (Suc (randomUsed s))))]\<rparr>"
  have "watching ?s1" using assms by (simp add: watching_def handlersFor_def)
  then have "fireEvent h ''mousemove'' ?s1 = ?s1\<lparr>lastActivity := now h, isActive := True\<rparr>"
    by (rule fireEvent_input) simp
  then show ?thesis using MouseMove by (simp add: perform_def)
qed (simp_all add: perform_def)

lemma sameTimer_action:
  assumes "watching s"
  shows "sameTimer s (snd (simulateMinimalScroll h s))"
    and "sameTimer s (snd (simulateBackgroundActivity h s))"
    and "sameTimer s (snd (simulateScroll h s))"
    and "sameTimer s (snd (simulateMouseMove h s))"
    and "sameTimer s (snd (simulateFocus h s))"
  using perform_timer [OF assms]
  by (simp_all add: sameTimer_def simulateMinimalScroll_eq simulateBackgroundActivity_eq
      simulateScroll_eq simulateMouseMove_eq simulateFocus_eq split: option.splits)

lemma sameTimer_randomActivity:
  assumes "watching s"
  shows "sameTimer s (snd (randomActivity h s))"
proof -
  let ?s1 = "s\<lparr>randomUsed := Suc (randomUsed s)\<rparr>"
  have w: "watching ?s1" using assms by simp
  have "sameTimer ?s1 (snd (randomActivity h s))"
    using sameTimer_action(3,4,5) [OF w, of h]
    by (simp add: randomActivity_def Let_def sameTimer_def)
  then show ?thesis by (simp add: sameTimer_def)
qed

lemma sameTimer_simulateNaturalActivity:
  assumes "watching s"
  shows "sameTimer s (snd (simulateNaturalActivity h s))"
  using sameTimer_action(2,3) [OF assms, of h] sameTimer_randomActivity [OF assms, of h]
  by (auto simp add: simulateNaturalActivity_def seq_def sameTimer_def
      split: prod.splits option.splits)

lemma sameTimer_tick:
  assumes "watching s"
  shows "sameTimer s (snd (tick h s))"
  using sameTimer_simulateNaturalActivity [OF assms, of h]
  by (simp add: tick_def sameTimer_def)

lemma sameTimer_fireInterval:
  assumes "watching s"
  shows "sameTimer s (fireInterval h t s)"
  using sameTimer_tick [OF assms, of h]
  by (auto simp add: fireInterval_def reportUncaught_def emit_def sameTimer_def
      split: prod.splits option.splits)

lemma keepsTimers_refl [simp]: "keepsTimers s s"
  by (simp add: keepsTimers_def)

lemma keepsTimers_trans: "keepsTimers s s1 \<Longrightarrow> keepsTimers s1 s2 \<Longrightarrow> keepsTimers s s2"
  by (auto simp add: keepsTimers_def)

lemma keepsTimers_runHandler: "keepsTimers s (reportUncaught (runHandler h l s))"
  by (cases l)
     (auto simp add: keepsTimers_def runHandler_def reportUncaught_def emit_def start_def seq_def
        setupPageVisibilityMonitor_def setupUserActivityMonitor_def setupPeriodicActivity_eq
        setupWebSocketMonitor_def onPageActive_def onUserActivity_def setTimeout_def Let_def)

lemma keepsTimers_fold:
  "keepsTimers s (fold (\<lambda>l s'. reportUncaught (runHandler h l s')) ls s)"
proof (induction ls arbitrary: s)
  case Nil
  show ?case by simp
next
  case (Cons l ls)
  let ?s1 = "reportUncaught (runHandler h l s)"
  have "keepsTimers s ?s1" by (rule keepsTimers_runHandler)
  moreover have "keepsTimers ?s1 (fold (\<lambda>l s'. reportUncaught (runHandler h l s')) ls ?s1)"
    by (rule Cons.IH)
  ultimately show ?case using keepsTimers_trans by simp
qed

lemma keepsTimers_fireEvent: "keepsTimers s (fireEvent h event s)"
  by (simp add: fireEvent_def keepsTimers_fold)

lemma keepsTimers_perform: "keepsTimers s (perform h a s)"
proof (cases a)
  case MouseMove
  let ?s1 = "s\<lparr>randomUsed := randomUsed s + 2,
               effects := effects s @
                 [MouseMoveEvent
                    (pointerCoordinate h (innerWidth h) (random h (randomUsed s)))
                    (pointerCoordinate h (innerHeight h) (random h (Suc (randomUsed s))))]\<rparr>"
  have "keepsTimers s ?s1" by (simp add: keepsTimers_def)
  moreover have "keepsTimers ?s1 (fireEvent h ''mousemove'' ?s1)" by (rule keepsTimers_fireEvent)
  ultimately show ?thesis using MouseMove keepsTimers_trans by (simp add: perform_def)
qed (simp_all add: perform_def keepsTimers_def)

lemma keepsTimers_action:
  "keepsTimers s (snd (simulateMinimalScroll h s))"
  "keepsTimers s (snd (simulateBackgroundActivity h s))"
  "keepsTimers s (snd (simulateScroll h s))"
  "keepsTimers s (snd (simulateMouseMove h s))"
  "keepsTimers s (snd (simulateFocus h s))"
  using keepsTimers_perform [of s h]
  by (simp_all add: simulateMinimalScroll_eq simulateBackgroundActivity_eq
      simulateScroll_eq simulateMouseMove_eq simulateFocus_eq keepsTimers_def
      split: option.splits)

lemma keepsTimers_randomActivity: "keepsTimers s (snd (randomActivity h s))"
proof -
  let ?s1 = "s\<lparr>randomUsed := Suc (randomUsed s)\<rparr>"
  have "keepsTimers ?s1 (snd (randomActivity h s))"
    using keepsTimers_action(3,4,5) [of ?s1 h]
    by (simp add: randomActivity_def Let_def)
  then show ?thesis by (simp add: keepsTimers_def)
qed

lemma keepsTimers_simulateNaturalActivity: "keepsTimers s (snd (simulateNaturalActivity h s))"
  using keepsTimers_action(2,3) [of s h] keepsTimers_randomActivity [of s h]
  by (auto simp add: simulateNaturalActivity_def seq_def keepsTimers_def
      split: prod.splits option.splits)

lemma keepsTimers_tick: "keepsTimers s (snd (tick h s))"
  using keepsTimers_simulateNaturalActivity [of s h]
  by (simp add: tick_def)

lemma keepsTimers_fireInterval: "keepsTimers s (fireInterval h t s)"
  using keepsTimers_tick [of s h]
  by (auto simp add: fireInterval_def reportUncaught_def emit_def keepsTimers_def
      split: prod.splits option.splits)

text \<open>
  C7, as the source has it. A tick that is not due does nothing. A tick that is due
  performs the action of the policy (in the random branch, the one of index 0, 1 or 2),
  and the error it ends with is the first error among
  the unguarded browser calls of that action: \<open>window.scrollBy\<close> for both scrolls, the
  creation and the dispatch of the event for the pointer move and the focus event. Such
  an error leaves the tick handler, and \<open>lastActivity\<close> and the issued effects stay as they
  were. The storage write of the pulse is guarded: when it raises, the minimal scroll is
  performed instead and the tick completes normally. The options form of the scroll
  restore is guarded: when it raises, the two-argument form is called instead, and only
  an error of that one leaves the restore. Whatever raises, every recurring timer that
  runs before a tick still runs after it, and on a keeper with its watchers installed the
  timers and the keeper's timer identifier are exactly as before.
\<close>

theorem synthetic_action_errors:
  "(\<not> shouldSimulateActivity h s \<longrightarrow> tick h s = (None, s)) \<and>
   (shouldSimulateActivity h s \<and>
    (choosesAtRandom h s \<longrightarrow> 0 \<le> randomIndex h s \<and> randomIndex h s \<le> 2) \<longrightarrow>
      fst (tick h s) = firstError h (unguarded (selectAction h s)) \<and>
      (firstError h (unguarded (selectAction h s)) = None \<longrightarrow>
         snd (tick h s) =
           (perform h (selectAction h s) (afterDraw h s))\<lparr>lastActivity := now h\<rparr>) \<and>
      (firstError h (unguarded (selectAction h s)) \<noteq> None \<longrightarrow>
         lastActivity (snd (tick h s)) = lastActivity s \<and>
         effects (snd (tick h s)) = effects s)) \<and>
   (shouldSimulateActivity h s \<and> hidden h \<and>
    truthy (getField (config s) ''enableBackgroundKeepAlive'') \<and>
    throws h LocalStorageSetItem \<noteq> None \<and> throws h WindowScrollBy = None \<longrightarrow>
      tick h s = (None, (perform h MinimalScroll s)\<lparr>lastActivity := now h\<rparr>)) \<and>
   restoreScroll h y s =
     (case throws h WindowScrollToOptions of
        None \<Rightarrow> (None, emit (ScrollToOptions y) s)
      | Some e \<Rightarrow>
          (case throws h WindowScrollTo of
             None \<Rightarrow> (None, emit (ScrollTo 0 y) s)
           | Some e' \<Rightarrow> (Some e', s))) \<and>
   (watching s \<longrightarrow>
      activityTimer (snd (tick h s)) = activityTimer s \<and>
      intervals (snd (tick h s)) = intervals s \<and>
      activityTimer (fireInterval h t s) = activityTimer s \<and>
      intervals (fireInterval h t s) = intervals s) \<and>
   set (intervals s) \<subseteq> set (intervals (snd (tick h s))) \<and>
   set (intervals s) \<subseteq> set (intervals (fireInterval h t s))"
proof -
  have idle: "tick h s = (None, s)" if "\<not> shouldSimulateActivity h s"
    using that by (simp add: tick_def)
  have act: "fst (tick h s) = firstError h (unguarded (selectAction h s)) \<and>
      (firstError h (unguarded (selectAction h s)) = None \<longrightarrow>
         snd (tick h s) =
           (perform h (selectAction h s) (afterDraw h s))\<lparr>lastActivity := now h\<rparr>) \<and>
      (firstError h (unguarded (selectAction h s)) \<noteq> None \<longrightarrow>
         lastActivity (snd (tick h s)) = lastActivity s \<and>
         effects (snd (tick h s)) = effects s)"
    if "shouldSimulateActivity h s"
      and "choosesAtRandom h s \<longrightarrow> 0 \<le> randomIndex h s \<and> randomIndex h s \<le> 2"
    using that(1) simulateNaturalActivity_outcome [OF that(2)]
    by (simp add: tick_def)
  have fallback: "tick h s = (None, (perform h MinimalScroll s)\<lparr>lastActivity := now h\<rparr>)"
    if "shouldSimulateActivity h s" and "hidden h"
      and "truthy (getField (config s) ''enableBackgroundKeepAlive'')"
      and "throws h LocalStorageSetItem \<noteq> None" and "throws h WindowScrollBy = None"
    using that
    by (auto simp add: tick_def simulateNaturalActivity_def seq_def
        simulateBackgroundActivity_eq simulateMinimalScroll_eq)
  have same: "sameTimer s (snd (tick h s)) \<and> sameTimer s (fireInterval h t s)"
    if "watching s"
    using sameTimer_tick [OF that] sameTimer_fireInterval [OF that] by simp
  have keeps: "set (intervals s) \<subseteq> set (intervals (snd (tick h s)))"
    "set (intervals s) \<subseteq> set (intervals (fireInterval h t s))"
    using keepsTimers_tick [of s h] keepsTimers_fireInterval [of s h t]
    by (simp_all add: keepsTimers_def)
  show ?thesis
    using idle act fallback same keeps restoreScroll_eq [of h y s]
    by (simp add: sameTimer_def)
qed

theorem synthetic_action_errors_witness:
  "watching runningKeeper \<and>
   shouldSimulateActivity quotaPage runningKeeper \<and>
   throws quotaPage LocalStorageSetItem = Some StorageError \<and>
   tick quotaPage runningKeeper =
     (None, runningKeeper\<lparr>effects := [ScrollBy 0 (1 / 10)],
                          timeouts := [(50, CbRestoreScroll 40)],
                          lastActivity := 1000000\<rparr>) \<and>
   throws legacyPage WindowScrollToOptions = Some TypeError \<and>
   restoreScroll legacyPage 40 runningKeeper =
     (None, runningKeeper\<lparr>effects := [ScrollTo 0 40]\<rparr>) \<and>
   shouldSimulateActivity brokenDispatchPage mediumKeeper \<and>
   selectAction brokenDispatchPage mediumKeeper = MouseMove \<and>
   fst (tick brokenDispatchPage mediumKeeper) = Some DOMError \<and>
   lastActivity (snd (tick brokenDispatchPage mediumKeeper)) = 0 \<and>
   activityTimer (fireInterval brokenScrollPage 1 runningKeeper) = Some 1 \<and>
   intervals (fireInterval brokenScrollPage 1 runningKeeper) = [(1, JNum 300000)] \<and>
   \<not> shouldSimulateActivity chatPage (runningKeeper\<lparr>lastActivity := 900000\<rparr>) \<and>
   tick chatPage (runningKeeper\<lparr>lastActivity := 900000\<rparr>) =
     (None, runningKeeper\<lparr>lastActivity := 900000\<rparr>)"
proof -
  have w: "watching runningKeeper"
    by (simp add: runningKeeper_eq watching_def handlersFor_def inputEvents_def)
  have q: "hidden quotaPage" "now quotaPage = 1000000" "scrollY quotaPage = 40"
    "throws quotaPage LocalStorageSetItem = Some StorageError"
    "throws quotaPage WindowScrollBy = None"
    by (simp_all add: quotaPage_def hiddenPage_def chatPage_def)
  have qs: "shouldSimulateActivity quotaPage runningKeeper"
    by (rule runningKeeper_idle) (simp add: q)
  have k: "truthy (getField (config runningKeeper) ''enableBackgroundKeepAlive'')"
    "effects runningKeeper = []" "timeouts runningKeeper = []"
    "activityTimer runningKeeper = Some 1" "intervals runningKeeper = [(1, JNum 300000)]"
    by (simp_all add: runningKeeper_eq getField_def CONFIG_def emptyPage_def)
  have l: "throws legacyPage WindowScrollToOptions = Some TypeError"
    "throws legacyPage WindowScrollTo = None"
    by (simp_all add: legacyPage_def chatPage_def)
  have d: "now brokenDispatchPage = 1000000" "\<not> hidden brokenDispatchPage"
    "\<not> isFileHelper brokenDispatchPage"
    "throws brokenDispatchPage NewMouseEvent = None"
    "throws brokenDispatchPage DocumentDispatchEvent = Some DOMError"
    by (simp_all add: brokenDispatchPage_def chatPage_def isFileHelper_def)
  have di: "randomIndex brokenDispatchPage mediumKeeper = 1"
    by (rule chatPage_index) (simp_all add: brokenDispatchPage_def chatPage_def)
  have ds: "shouldSimulateActivity brokenDispatchPage mediumKeeper"
    by (rule mediumKeeper_idle) (simp add: d)
  have m: "getField (config mediumKeeper) ''riskLevel'' = JStr ''medium''"
    "lastActivity mediumKeeper = 0"
    by (simp_all add: mediumKeeper_def runningKeeper_eq getField_def emptyPage_def)
  have da: "selectAction brokenDispatchPage mediumKeeper = MouseMove"
    using d di m by (simp add: selectAction_def choiceByIndex_def)
  have c: "\<not> shouldSimulateActivity chatPage (runningKeeper\<lparr>lastActivity := 900000\<rparr>)"
    by (simp add: shouldSimulateActivity_def getMinInactiveTime_def getField_def CONFIG_def
        runningKeeper_eq emptyPage_def chatPage_def Let_def)
  show ?thesis
    using w q qs k l d di ds m da c
      synthetic_action_errors [where h = quotaPage and s = runningKeeper and y = 40 and t = 1]
      synthetic_action_errors [where h = legacyPage and s = runningKeeper and y = 40 and t = 1]
      synthetic_action_errors [where h = brokenDispatchPage and s = mediumKeeper and y = 40
        and t = 1]
      synthetic_action_errors [where h = brokenScrollPage and s = runningKeeper and y = 40
        and t = 1]
      synthetic_action_errors [where h = chatPage and s = "runningKeeper\<lparr>lastActivity := 900000\<rparr>"
        and y = 40 and t = 1]
    by (simp add: unguarded_def perform_def emit_def)
qed

text \<open>
  C7, as stated, fails: when \<open>window.scrollBy\<close> raises, the error leaves the tick handler,
  the browser reports it as uncaught, and \<open>lastActivity\<close> is not updated; and so does an
  error of \<open>document.dispatchEvent\<close> under profile \<open>medium\<close>.
\<close>

theorem scroll_error_propagates_counterexample:
  "shouldSimulateActivity brokenScrollPage runningKeeper \<and>
   throws brokenScrollPage WindowScrollBy = Some DOMError \<and>
   tick brokenScrollPage runningKeeper = (Some DOMError, runningKeeper) \<and>
   effects (fireInterval brokenScrollPage 1 runningKeeper) = [Uncaught DOMError] \<and>
   lastActivity (fireInterval brokenScrollPage 1 runningKeeper) = lastActivity runningKeeper \<and>
   shouldSimulateActivity brokenDispatchPage mediumKeeper \<and>
   throws brokenDispatchPage DocumentDispatchEvent = Some DOMError \<and>
   fst (tick brokenDispatchPage mediumKeeper) = Some DOMError"
proof -
  have a: "shouldSimulateActivity brokenScrollPage runningKeeper"
    by (rule runningKeeper_idle) (simp_all add: brokenScrollPage_def chatPage_def)
  have b: "throws brokenScrollPage WindowScrollBy = Some DOMError"
    "\<not> hidden brokenScrollPage" "\<not> isFileHelper brokenScrollPage"
    by (simp_all add: brokenScrollPage_def chatPage_def isFileHelper_def)
  have c: "getField (config runningKeeper) ''riskLevel'' = JStr ''low''"
    by (simp add: runningKeeper_eq getField_def CONFIG_def)
  have d: "tick brokenScrollPage runningKeeper = (Some DOMError, runningKeeper)"
    using a b c by (simp add: tick_def simulateNaturalActivity_def seq_def simulateScroll_eq)
  have e: "effects runningKeeper = []" "intervals runningKeeper = [(1, JNum 300000)]"
    by (simp_all add: runningKeeper_eq emptyPage_def)
  have f: "now brokenDispatchPage = 1000000" "\<not> hidden brokenDispatchPage"
    "throws brokenDispatchPage NewMouseEvent = None"
    "throws brokenDispatchPage DocumentDispatchEvent = Some DOMError"
    by (simp_all add: brokenDispatchPage_def chatPage_def)
  have g: "shouldSimulateActivity brokenDispatchPage mediumKeeper"
    by (rule mediumKeeper_idle) (simp add: f)
  have i: "randomIndex brokenDispatchPage mediumKeeper = 1"
    by (rule chatPage_index) (simp_all add: brokenDispatchPage_def chatPage_def)
  have m: "getField (config mediumKeeper) ''riskLevel'' = JStr ''medium''"
    by (simp add: mediumKeeper_def getField_def)
  have j: "fst (tick brokenDispatchPage mediumKeeper) = Some DOMError"
    using f g i m
    by (simp add: tick_def simulateNaturalActivity_def seq_def randomActivity_def
        simulateMouseMove_eq Let_def)
  show ?thesis
    using a b d e f g j by (simp add: fireInterval_def reportUncaught_def emit_def)
qed

end
